theory Spec2Isabelle
  imports Complex_Main "HOL-Library.Sublist"
begin

section \<open>Python values\<close>

text \<open>
  A Python \<open>str\<close> is a sequence of Unicode code points, so it is modelled as a list of
  naturals; \<open>cps\<close> turns an ASCII literal into that representation.  \<open>bytes\<close> are
  lists of naturals as well (every element below 256).  The operators \<open>x in s\<close>,
  \<open>s.startswith(x)\<close> and \<open>s.endswith(x)\<close> are \<open>sublist\<close>, \<open>prefix\<close> and \<open>suffix\<close>.
\<close>

type_synonym pystr = "nat list"
type_synonym bytes = "nat list"

definition cps :: "string \<Rightarrow> pystr" where
  "cps s = map of_char s"

text \<open>
  \<open>str.isspace\<close> for a single code point: the 29 code points that CPython's Unicode
  database classifies as whitespace.  \<open>str.strip()\<close> without argument removes the
  longest leading and the longest trailing run of them.
\<close>

definition isspace :: "nat \<Rightarrow> bool" where
  "isspace c \<longleftrightarrow>
     (9 \<le> c \<and> c \<le> 13) \<or> (28 \<le> c \<and> c \<le> 32) \<or> c = 133 \<or> c = 160 \<or> c = 5760 \<or>
     (8192 \<le> c \<and> c \<le> 8202) \<or> c = 8232 \<or> c = 8233 \<or> c = 8239 \<or> c = 8287 \<or>
     c = 12288"

definition strip :: "pystr \<Rightarrow> pystr" where
  "strip s = rev (dropWhile isspace (rev (dropWhile isspace s)))"

text \<open>
  \<open>s.split(sep)\<close> for a one-character separator: every occurrence of the separator
  ends a piece, empty pieces are kept, and the empty string gives one empty piece.
  \<open>join_with\<close> is \<open>sep.join(pieces)\<close>.
\<close>

fun split_on :: "nat \<Rightarrow> pystr \<Rightarrow> pystr list" where
  "split_on sep [] = [[]]"
| "split_on sep (c # cs) =
     (let r = split_on sep cs
      in if c = sep then [] # r else (c # hd r) # tl r)"

fun join_with :: "nat \<Rightarrow> pystr list \<Rightarrow> pystr" where
  "join_with sep [] = []"
| "join_with sep [l] = l"
| "join_with sep (l # ls) = l @ sep # join_with sep ls"

section \<open>extract_nav.py: the candidate extractor\<close>

text \<open>
  The fixed list \<open>keywords\<close> of \<open>parse_data\<close>, as code points: five Devanagari
  words and the ASCII marker \<open>NAV\<close>.
\<close>

definition keywords_list :: "pystr list" where
  "keywords_list =
     [[2319, 2344, 2310, 2311, 2348, 2367, 2319, 2354],
      [2360, 2361, 2349, 2366, 2327, 2367, 2340, 2366],
      [2350, 2370, 2354, 2381, 2351],
      [2350, 2306, 2360, 2367, 2352],
      [2408, 2406, 2414, 2408],
      cps ''NAV'']"

record parsed =
  found_keywords :: "pystr list"
  raw_lines :: "pystr list"

definition parse_data :: "pystr \<Rightarrow> parsed" where
  "parse_data text =
     (let lines = [strip line. line \<leftarrow> split_on 10 text, strip line \<noteq> []];
          found = [kw. kw \<leftarrow> keywords_list, sublist kw text]
      in \<lparr>found_keywords = found, raw_lines = lines\<rparr>)"


section \<open>main.py: values exchanged with the site\<close>

text \<open>
  The exceptions the two scripts can meet.  \<open>ConnectionError\<close> stands for every
  \<open>requests\<close> exception raised while sending (no connection, timeout, bad URL) and
  \<open>HTTPError\<close> is what \<open>raise_for_status\<close> raises; the specification calls both of
  them \<open>TransportError\<close>.  The four errors after \<open>FileNotFoundError\<close> are those of
  the file system and of a path with a NUL character, \<open>TesseractError\<close> carries the
  exit status and the message of a Tesseract run that failed, and \<open>OtherError\<close> the
  message of any other library or system failure.
\<close>

datatype exn =
    ConnectionError
  | HTTPError nat
  | JSONDecodeError
  | AttributeError
  | TypeError
  | FileNotFoundError
  | FileExistsError
  | NotADirectoryError
  | IsADirectoryError
  | ValueError
  | TesseractNotFoundError
  | TesseractError nat pystr
  | ModuleNotFoundError
  | OtherError pystr

text \<open>
  A decoded JSON document, as \<open>resp.json()\<close> returns it: a \<open>dict\<close> is the list of its
  items in insertion order and is read with \<open>map_of\<close>.
\<close>

datatype json =
    JNull
  | JBool bool
  | JNum rat
  | JStr pystr
  | JArr "json list"
  | JObj "(pystr \<times> json) list"

text \<open>
  The three things Python does to a decoded value in these scripts: \<open>x.get(k, d)\<close>
  (only a \<open>dict\<close> has \<open>get\<close>), \<open>for item in x\<close> (a list yields its elements, a string
  its characters, a dict its keys, anything else is not iterable) and \<open>re.search(p, x)\<close>
  (which wants a string).
\<close>

definition json_get :: "json \<Rightarrow> pystr \<Rightarrow> json \<Rightarrow> exn + json" where
  "json_get j k dflt =
     (case j of
        JObj d \<Rightarrow> (case map_of d k of Some v \<Rightarrow> Inr v | None \<Rightarrow> Inr dflt)
      | _ \<Rightarrow> Inl AttributeError)"

definition json_iter :: "json \<Rightarrow> exn + json list" where
  "json_iter j =
     (case j of
        JArr xs \<Rightarrow> Inr xs
      | JStr s \<Rightarrow> Inr (map (\<lambda>c. JStr [c]) s)
      | JObj d \<Rightarrow> Inr (map (\<lambda>kv. JStr (fst kv)) d)
      | _ \<Rightarrow> Inl TypeError)"

definition as_str :: "json \<Rightarrow> exn + pystr" where
  "as_str j = (case j of JStr s \<Rightarrow> Inr s | _ \<Rightarrow> Inl TypeError)"

text \<open>
  A page as \<open>BeautifulSoup(resp.text, "html.parser")\<close> presents it: its elements in
  document order, each with its tag name, its attributes and the value of
  \<open>get_text(strip=True)\<close>.
\<close>

record element =
  el_tag :: pystr
  el_attrs :: "(pystr \<times> pystr) list"
  el_text :: pystr

record request =
  req_url :: pystr
  req_params :: "(pystr \<times> pystr) list"
  req_headers :: "(pystr \<times> pystr option) list"
  req_form :: "(pystr \<times> pystr) list"

record response =
  resp_status :: nat
  resp_content :: bytes
  resp_json :: "json option"
  resp_soup :: "element list"

text \<open>
  \<open>resp_json\<close> is the outcome of \<open>resp.json()\<close> (\<open>None\<close> when the body is not JSON) and
  \<open>resp_soup\<close> the parsed body.  An OCR result line of EasyOCR is a text with its
  confidence; an image is what OpenCV decodes.
\<close>

type_synonym ocr_line = "pystr \<times> rat"

datatype image = Image (height: nat) (width: nat) (pixels: "nat list")

text \<open>
  Everything outside the repository is a field of the environment: the site
  (\<open>http_get\<close> for \<open>requests.get\<close> and for the first request of a fresh session,
  \<open>session_post\<close> for the \<open>POST\<close> sent in the session that received the given
  profile response), \<open>str.lower\<close>, the directory that holds \<open>main.py\<close> (the components
  of its absolute path), the refusals of the operating system, EasyOCR, the file
  test, OpenCV and Tesseract.  \<open>os_refuses\<close> gives, for a location, the error with which
  the system declines to create or write an entry there (no permission, a name it
  cannot store), if any.  \<open>cv2_imdecode\<close> can raise (OpenCV does on an empty buffer) or
  return \<open>None\<close>.  \<open>tesseract_run\<close> is a run of the installed Tesseract program: its
  exit status and message when it fails, the recognised text otherwise.
\<close>

record env =
  http_get :: "request \<Rightarrow> exn + response"
  session_post :: "response \<Rightarrow> request \<Rightarrow> exn + response"
  str_lower :: "pystr \<Rightarrow> pystr"
  script_dir :: "pystr list"
  os_refuses :: "pystr list \<Rightarrow> exn option"
  easyocr_installed :: bool
  easyocr_readtext :: "pystr list \<Rightarrow> bytes option \<Rightarrow> exn + ocr_line list"
  path_exists :: "pystr \<Rightarrow> bool"
  cv2_imread :: "pystr \<Rightarrow> image option"
  cv2_imdecode :: "bytes \<Rightarrow> exn + image option"
  cv2_threshold_pipeline :: "image \<Rightarrow> exn + image"
  tesseract_installed :: bool
  tesseract_run :: "pystr \<Rightarrow> image \<Rightarrow> nat \<times> pystr + pystr"

definition raise_for_status :: "response \<Rightarrow> exn + unit" where
  "raise_for_status resp =
     (if 400 \<le> resp_status resp \<and> resp_status resp < 600
      then Inl (HTTPError (resp_status resp)) else Inr ())"

definition user_agent :: "pystr \<times> pystr option" where
  "user_agent =
     (cps ''User-Agent'', Some (cps ''Mozilla/5.0 (X11; Linux x86_64) AppleWebKit/537.36''))"

subsection \<open>The three regular expressions\<close>

text \<open>
  Each pattern of \<open>main.py\<close> has the shape \<open>pre(C+)post\<close>: a literal, a non-empty
  greedy run of one character class captured as group 1, a literal.  In all three
  the first character of \<open>post\<close> lies outside the class, so the run can only be the
  longest one and backtracking never finds another match: \<open>match_at\<close> is the match
  at the start of the string, and \<open>re_search\<close> tries every start from the left, as
  \<open>re.search\<close> does.  The result is group 1.
\<close>

definition match_at :: "pystr \<Rightarrow> (nat \<Rightarrow> bool) \<Rightarrow> pystr \<Rightarrow> pystr \<Rightarrow> pystr option" where
  "match_at pre cls post s =
     (if prefix pre s
      then (let rest = drop (length pre) s; grp = takeWhile cls rest
            in if grp \<noteq> [] \<and> prefix post (dropWhile cls rest) then Some grp else None)
      else None)"

fun re_search :: "pystr \<Rightarrow> (nat \<Rightarrow> bool) \<Rightarrow> pystr \<Rightarrow> pystr \<Rightarrow> pystr option" where
  "re_search pre cls post [] = match_at pre cls post []"
| "re_search pre cls post (c # cs) =
     (case match_at pre cls post (c # cs) of
        Some g \<Rightarrow> Some g
      | None \<Rightarrow> re_search pre cls post cs)"

definition search_symbol :: "pystr \<Rightarrow> pystr option" where
  \<comment> \<open>\<open>>([A-Z0-9]+)</a>\<close>\<close>
  "search_symbol =
     re_search (cps ''>'') (\<lambda>c. (65 \<le> c \<and> c \<le> 90) \<or> (48 \<le> c \<and> c \<le> 57)) (cps ''</a>'')"

definition search_anchor_text :: "pystr \<Rightarrow> pystr option" where
  \<comment> \<open>\<open>>([^<]+)</a>\<close>\<close>
  "search_anchor_text = re_search (cps ''>'') (\<lambda>c. c \<noteq> 60) (cps ''</a>'')"

definition search_href :: "pystr \<Rightarrow> pystr option" where
  \<comment> \<open>\<open>href="([^"]+)"\<close>\<close>
  "search_href = re_search (cps ''href=\"'') (\<lambda>c. c \<noteq> 34) (cps ''\"'')"

section \<open>main.py: the fund directory\<close>

record fund =
  fund_symbol :: pystr
  fund_name :: pystr
  fund_size :: json
  daily_nav :: json
  daily_date :: json
  weekly_nav :: json
  weekly_date :: json
  monthly_nav :: json
  monthly_date :: json

definition funds_request :: request where
  "funds_request =
     \<lparr>req_url = cps ''https://www.sharesansar.com/mutual-fund-navs'',
      req_params = [(cps ''draw'', cps ''1''), (cps ''start'', cps ''0''),
                    (cps ''length'', cps ''50''), (cps ''type'', cps ''2'')],
      req_headers = [user_agent, (cps ''X-Requested-With'', Some (cps ''XMLHttpRequest''))],
      req_form = []\<rparr>"

text \<open>
  One turn of the loop of \<open>fetch_open_end_funds\<close>: \<open>item.get\<close> needs a dict, and the
  two \<open>re.search\<close> calls need the values of \<open>symbol\<close> and \<open>companyname\<close> to be strings.
\<close>

definition fund_of_item :: "json \<Rightarrow> exn + fund" where
  "fund_of_item item =
     (case item of
        JObj d \<Rightarrow>
          (let field = (\<lambda>k. case map_of d (cps k) of Some v \<Rightarrow> v | None \<Rightarrow> JStr [])
           in case as_str (field ''symbol'') of
                Inl e \<Rightarrow> Inl e
              | Inr sym_html \<Rightarrow>
                  (case as_str (field ''companyname'') of
                     Inl e \<Rightarrow> Inl e
                   | Inr name_html \<Rightarrow>
                       Inr \<lparr>fund_symbol =
                              (case search_symbol sym_html of Some g \<Rightarrow> g | None \<Rightarrow> sym_html),
                            fund_name =
                              (case search_anchor_text name_html of
                                 Some g \<Rightarrow> g | None \<Rightarrow> name_html),
                            fund_size = field ''fund_size'',
                            daily_nav = field ''daily_nav_price'',
                            daily_date = field ''daily_date'',
                            weekly_nav = field ''weekly_nav_price'',
                            weekly_date = field ''weekly_date'',
                            monthly_nav = field ''monthly_nav_price'',
                            monthly_date = field ''monthly_date''\<rparr>))
      | _ \<Rightarrow> Inl AttributeError)"

fun funds_loop :: "json list \<Rightarrow> fund list \<Rightarrow> exn + fund list" where
  "funds_loop [] funds = Inr funds"
| "funds_loop (item # items) funds =
     (case fund_of_item item of
        Inl e \<Rightarrow> Inl e
      | Inr f \<Rightarrow> funds_loop items (funds @ [f]))"

text \<open>
  The part of \<open>fetch_open_end_funds\<close> after the request: \<open>raise_for_status\<close>,
  \<open>resp.json()\<close>, and the loop over \<open>data.get("data", [])\<close>.
\<close>

definition read_directory :: "response \<Rightarrow> exn + fund list" where
  "read_directory resp =
     (case raise_for_status resp of
        Inl e \<Rightarrow> Inl e
      | Inr _ \<Rightarrow>
          (case resp_json resp of
             None \<Rightarrow> Inl JSONDecodeError
           | Some data \<Rightarrow>
               (case json_get data (cps ''data'') (JArr []) of
                  Inl e \<Rightarrow> Inl e
                | Inr rows \<Rightarrow>
                    (case json_iter rows of
                       Inl e \<Rightarrow> Inl e
                     | Inr items \<Rightarrow> funds_loop items []))))"

definition fetch_open_end_funds :: "env \<Rightarrow> exn + fund list" where
  "fetch_open_end_funds env =
     (case http_get env funds_request of
        Inl e \<Rightarrow> Inl e
      | Inr resp \<Rightarrow> read_directory resp)"

section \<open>main.py: the announcement resolver\<close>

record announcement =
  ann_date :: json
  ann_title :: pystr
  ann_url :: pystr

definition company_url :: "env \<Rightarrow> pystr \<Rightarrow> pystr" where
  "company_url env symbol = cps ''https://www.sharesansar.com/company/'' @ str_lower env symbol"

definition profile_request :: "env \<Rightarrow> pystr \<Rightarrow> request" where
  "profile_request env symbol =
     \<lparr>req_url = company_url env symbol, req_params = [], req_headers = [user_agent],
      req_form = []\<rparr>"

text \<open>
  The scraping block of \<open>fetch_fund_announcements\<close>.  \<open>soup.find\<close> returns the first
  element that fits or \<open>None\<close>; every conditional expression of the source supplies a
  default for a missing element.  The token is \<open>meta_token.get("content")\<close>, which is
  \<open>None\<close> when the element has no such attribute.
\<close>

definition find_meta_token :: "element list \<Rightarrow> element option" where
  "find_meta_token soup =
     find (\<lambda>e. el_tag e = cps ''meta'' \<and> map_of (el_attrs e) (cps ''name'') = Some (cps ''_token''))
       soup"

definition find_id :: "element list \<Rightarrow> pystr \<Rightarrow> element option" where
  "find_id soup i = find (\<lambda>e. map_of (el_attrs e) (cps ''id'') = Some i) soup"

definition announcements_request :: "env \<Rightarrow> pystr \<Rightarrow> element list \<Rightarrow> request" where
  "announcements_request env symbol soup =
     (let meta_token = find_meta_token soup;
          csrf_token = (case meta_token of
                          Some m \<Rightarrow> map_of (el_attrs m) (cps ''content'')
                        | None \<Rightarrow> Some []);
          companyid_elem = find_id soup (cps ''companyid'');
          symbol_elem = find_id soup (cps ''symbol'');
          sector_elem = find_id soup (cps ''sector'');
          company_id = (case companyid_elem of Some e \<Rightarrow> el_text e | None \<Rightarrow> []);
          symbol_val = (case symbol_elem of Some e \<Rightarrow> el_text e | None \<Rightarrow> symbol);
          sector_val = (case sector_elem of Some e \<Rightarrow> el_text e | None \<Rightarrow> [])
      in \<lparr>req_url = cps ''https://www.sharesansar.com/company-announcements'',
          req_params = [],
          req_headers =
            [user_agent,
             (cps ''X-Requested-With'', Some (cps ''XMLHttpRequest'')),
             (cps ''X-CSRF-Token'', csrf_token),
             (cps ''Content-Type'',
              Some (cps ''application/x-www-form-urlencoded; charset=UTF-8'')),
             (cps ''Referer'', Some (company_url env symbol))],
          req_form =
            [(cps ''draw'', cps ''1''), (cps ''start'', cps ''0''), (cps ''length'', cps ''10''),
             (cps ''company'', company_id), (cps ''symbol'', symbol_val),
             (cps ''sector'', sector_val)]\<rparr>)"

text \<open>
  The loop over the rows of the feed: a row is appended only when the \<open>href\<close> pattern
  matches its title.
\<close>

fun announcements_loop :: "json list \<Rightarrow> announcement list \<Rightarrow> exn + announcement list" where
  "announcements_loop [] announcements = Inr announcements"
| "announcements_loop (item # items) announcements =
     (case item of
        JObj d \<Rightarrow>
          (case as_str (case map_of d (cps ''title'') of Some v \<Rightarrow> v | None \<Rightarrow> JStr []) of
             Inl e \<Rightarrow> Inl e
           | Inr title_html \<Rightarrow>
               (case search_href title_html of
                  Some u \<Rightarrow>
                    announcements_loop items
                      (announcements @
                       [\<lparr>ann_date = (case map_of d (cps ''published_date'') of
                                       Some v \<Rightarrow> v | None \<Rightarrow> JStr []),
                         ann_title = (case search_anchor_text title_html of
                                        Some t \<Rightarrow> t | None \<Rightarrow> []),
                         ann_url = u\<rparr>])
                | None \<Rightarrow> announcements_loop items announcements))
      | _ \<Rightarrow> Inl AttributeError)"

text \<open>
  The part of \<open>fetch_fund_announcements\<close> after the \<open>POST\<close>: \<open>raise_for_status\<close>,
  \<open>resp.json()\<close>, and the loop over \<open>result.get("data", [])\<close>.  The profile page itself
  is parsed whatever its status: the source does not check it.
\<close>

definition read_feed :: "response \<Rightarrow> exn + announcement list" where
  "read_feed resp =
     (case raise_for_status resp of
        Inl e \<Rightarrow> Inl e
      | Inr _ \<Rightarrow>
          (case resp_json resp of
             None \<Rightarrow> Inl JSONDecodeError
           | Some result \<Rightarrow>
               (case json_get result (cps ''data'') (JArr []) of
                  Inl e \<Rightarrow> Inl e
                | Inr rows \<Rightarrow>
                    (case json_iter rows of
                       Inl e \<Rightarrow> Inl e
                     | Inr items \<Rightarrow> announcements_loop items []))))"

definition fetch_fund_announcements :: "env \<Rightarrow> pystr \<Rightarrow> pystr \<Rightarrow> exn + announcement list" where
  "fetch_fund_announcements env symbol fund_name' =
     (case http_get env (profile_request env symbol) of
        Inl e \<Rightarrow> Inl e
      | Inr page \<Rightarrow>
          (case session_post env page (announcements_request env symbol (resp_soup page)) of
             Inl e \<Rightarrow> Inl e
           | Inr resp \<Rightarrow> read_feed resp))"

text \<open>
  One row of the feed, read the way the loop reads it, for stating what the loop
  returns: the title HTML (\<open>item.get("title", "")\<close>), the date, whether the loop can
  read the row at all (a dict whose title, if present, is a string), and the
  announcement the row contributes, if any.
\<close>

definition row_title :: "json \<Rightarrow> pystr" where
  "row_title item =
     (case item of
        JObj d \<Rightarrow> (case map_of d (cps ''title'') of Some (JStr s) \<Rightarrow> s | _ \<Rightarrow> [])
      | _ \<Rightarrow> [])"

definition row_date :: "json \<Rightarrow> json" where
  "row_date item =
     (case item of
        JObj d \<Rightarrow> (case map_of d (cps ''published_date'') of Some v \<Rightarrow> v | None \<Rightarrow> JStr [])
      | _ \<Rightarrow> JStr [])"

definition readable_row :: "json \<Rightarrow> bool" where
  "readable_row item =
     (case item of
        JObj d \<Rightarrow>
          (case map_of d (cps ''title'') of None \<Rightarrow> True | Some (JStr s) \<Rightarrow> True | _ \<Rightarrow> False)
      | _ \<Rightarrow> False)"

definition row_announcement :: "json \<Rightarrow> announcement option" where
  "row_announcement item =
     (case search_href (row_title item) of
        None \<Rightarrow> None
      | Some u \<Rightarrow>
          Some \<lparr>ann_date = row_date item,
                ann_title = (case search_anchor_text (row_title item) of
                               Some t \<Rightarrow> t | None \<Rightarrow> []),
                ann_url = u\<rparr>)"

definition is_nav_title :: "env \<Rightarrow> pystr \<Rightarrow> bool" where
  "is_nav_title env t =
     (let title = str_lower env t
      in sublist (cps ''nav'') title \<or> sublist (cps ''net assets value'') title)"

fun find_latest_nav_announcement :: "env \<Rightarrow> announcement list \<Rightarrow> announcement option" where
  "find_latest_nav_announcement env [] = None"
| "find_latest_nav_announcement env (ann # announcements) =
     (if is_nav_title env (ann_title ann) then Some ann
      else find_latest_nav_announcement env announcements)"

section \<open>main.py: locating and downloading the image\<close>

text \<open>
  The loop over \<open>soup.find_all("img")\<close>: \<open>img.get("src", "")\<close> is the attribute or the
  empty string, and \<open>endswith\<close> takes the three accepted extensions.
\<close>

definition is_announcement_image :: "pystr \<Rightarrow> bool" where
  "is_announcement_image src \<longleftrightarrow>
     sublist (cps ''announcement'') src \<and>
     (suffix (cps ''.jpg'') src \<or> suffix (cps ''.jpeg'') src \<or> suffix (cps ''.png'') src)"

definition img_src :: "element \<Rightarrow> pystr" where
  "img_src img = (case map_of (el_attrs img) (cps ''src'') of Some v \<Rightarrow> v | None \<Rightarrow> [])"

fun img_loop :: "element list \<Rightarrow> pystr option" where
  "img_loop [] = None"
| "img_loop (img # imgs) =
     (let src = img_src img
      in if is_announcement_image src then Some src else img_loop imgs)"

definition plain_get :: "pystr \<Rightarrow> request" where
  \<comment> \<open>\<open>requests.get(url, headers=headers)\<close> with the browser's \<open>User-Agent\<close>\<close>
  "plain_get url' = \<lparr>req_url = url', req_params = [], req_headers = [user_agent], req_form = []\<rparr>"

definition extract_image_url :: "env \<Rightarrow> pystr \<Rightarrow> exn + pystr option" where
  "extract_image_url env announcement_url =
     (case http_get env (plain_get announcement_url) of
        Inl e \<Rightarrow> Inl e
      | Inr resp \<Rightarrow>
          (case raise_for_status resp of
             Inl e \<Rightarrow> Inl e
           | Inr _ \<Rightarrow> Inr (img_loop (filter (\<lambda>e. el_tag e = cps ''img'') (resp_soup resp)))))"

text \<open>
  \<open>pathlib\<close> on POSIX (CPython 3.8 to 3.13).  A path string is parsed into a root and
  its components: the root is \<open>//\<close> for exactly two leading slashes, \<open>/\<close> for any other
  number of them and empty otherwise; the components are the pieces between slashes
  that are neither empty nor a single dot.  The name is the last component, and the
  suffix starts at the last dot of the name unless that dot is its first or its last
  character.
\<close>

definition path_parts :: "pystr \<Rightarrow> pystr list" where
  "path_parts p = filter (\<lambda>c. c \<noteq> [] \<and> c \<noteq> cps ''.'') (split_on 47 p)"

definition path_root :: "pystr \<Rightarrow> pystr" where
  "path_root p =
     (if prefix (cps ''//'') p \<and> \<not> prefix (cps ''///'') p then cps ''//''
      else if prefix (cps ''/'') p then cps ''/''
      else [])"

definition path_name :: "pystr \<Rightarrow> pystr" where
  "path_name p =
     (case path_parts p of
        [] \<Rightarrow> []
      | c # cs \<Rightarrow> last (c # cs))"

definition rfind :: "nat \<Rightarrow> pystr \<Rightarrow> nat option" where
  "rfind c s =
     (if c \<in> set s then Some (length s - 1 - length (takeWhile (\<lambda>x. x \<noteq> c) (rev s)))
      else None)"

definition path_suffix :: "pystr \<Rightarrow> pystr" where
  "path_suffix p =
     (let name = path_name p
      in case rfind 46 name of
           Some i \<Rightarrow> if 0 < i \<and> i + 1 < length name then drop i name else []
         | None \<Rightarrow> [])"

text \<open>
  A \<open>Path\<close> object is its root with its components.  \<open>base / s\<close> parses the string:
  when the string has a root it replaces the base altogether, otherwise its
  components are appended to those of the base.  \<open>str(path)\<close> puts slashes between
  the components, and \<open>path.name\<close> is the last of them.
\<close>

type_synonym ppath = "pystr \<times> pystr list"

definition joinpath :: "ppath \<Rightarrow> pystr \<Rightarrow> ppath" where
  "joinpath base s =
     (if path_root s \<noteq> [] then (path_root s, path_parts s)
      else (fst base, snd base @ path_parts s))"

definition path_str :: "ppath \<Rightarrow> pystr" where
  "path_str p =
     (if fst p = [] \<and> snd p = [] then cps ''.'' else fst p @ join_with 47 (snd p))"

definition ppath_name :: "ppath \<Rightarrow> pystr" where
  "ppath_name p = (case snd p of [] \<Rightarrow> [] | c # cs \<Rightarrow> last (c # cs))"

text \<open>
  The file system, without symbolic links: what each location holds, a location being
  the list of names that leads to it from the root, which is always a directory.
  The system reaches the place a path names by going through its components: every
  step starts in a directory, and \<open>..\<close> steps back to the parent.  The result is the
  location of the last component, whose parent is then known to be a directory.
\<close>

datatype node = Dir | File bytes

type_synonym files = "pystr list \<rightharpoonup> node"

definition node_of :: "files \<Rightarrow> pystr list \<Rightarrow> node option" where
  "node_of fs loc = (if loc = [] then Some Dir else fs loc)"

fun walk :: "files \<Rightarrow> pystr list \<Rightarrow> pystr list \<Rightarrow> exn + pystr list" where
  "walk fs cur [] = Inr cur"
| "walk fs cur (c # cs) =
     (case node_of fs cur of
        Some Dir \<Rightarrow> walk fs (if c = cps ''..'' then butlast cur else cur @ [c]) cs
      | Some (File b) \<Rightarrow> Inl NotADirectoryError
      | None \<Rightarrow> Inl FileNotFoundError)"

definition has_nul :: "ppath \<Rightarrow> bool" where
  "has_nul p = list_ex (\<lambda>c. 0 \<in> set c) (snd p)"

text \<open>
  \<open>path.mkdir(exist_ok=True)\<close>: an existing directory is accepted as it is, an
  existing file is a \<open>FileExistsError\<close>, and a missing parent is an error since
  \<open>parents\<close> is not set.  \<open>path.write_bytes(content)\<close> creates the file or replaces its
  content; it cannot write a directory.  Python rejects a path with a NUL character
  before asking the system.  \<open>read_file\<close> is the content a reader finds at a path.
\<close>

definition mkdir :: "env \<Rightarrow> files \<Rightarrow> ppath \<Rightarrow> exn + files" where
  "mkdir env fs p =
     (if has_nul p then Inl ValueError
      else case walk fs [] (snd p) of
             Inl e \<Rightarrow> Inl e
           | Inr loc \<Rightarrow>
               (case node_of fs loc of
                  Some Dir \<Rightarrow> Inr fs
                | Some (File b) \<Rightarrow> Inl FileExistsError
                | None \<Rightarrow>
                    (case os_refuses env loc of
                       Some e \<Rightarrow> Inl e
                     | None \<Rightarrow> Inr (fs(loc \<mapsto> Dir)))))"

definition write_bytes :: "env \<Rightarrow> files \<Rightarrow> ppath \<Rightarrow> bytes \<Rightarrow> exn + files" where
  "write_bytes env fs p content =
     (if has_nul p then Inl ValueError
      else case walk fs [] (snd p) of
             Inl e \<Rightarrow> Inl e
           | Inr loc \<Rightarrow>
               (case node_of fs loc of
                  Some Dir \<Rightarrow> Inl IsADirectoryError
                | _ \<Rightarrow>
                    (case os_refuses env loc of
                       Some e \<Rightarrow> Inl e
                     | None \<Rightarrow> Inr (fs(loc \<mapsto> File content)))))"

definition read_file :: "files \<Rightarrow> ppath \<Rightarrow> bytes option" where
  "read_file fs p =
     (case walk fs [] (snd p) of
        Inl e \<Rightarrow> None
      | Inr loc \<Rightarrow> (case node_of fs loc of Some (File b) \<Rightarrow> Some b | _ \<Rightarrow> None))"

text \<open>
  \<open>IMAGES_DIR\<close> is \<open>Path(__file__).parent / "images"\<close>.  \<open>download_image\<close> makes the
  directory first, then fetches, then joins the directory with the symbol followed by
  the extension and writes there.  It returns the path, or the error that ended it,
  together with the file system as it has become: a directory made before a failure
  stays.
\<close>

definition images_dir :: "env \<Rightarrow> ppath" where
  "images_dir env = (cps ''/'', script_dir env @ [cps ''images''])"

definition download_image ::
  "env \<Rightarrow> pystr \<Rightarrow> pystr \<Rightarrow> files \<Rightarrow> (exn + ppath) \<times> files" where
  "download_image env url symbol fs =
     (case mkdir env fs (images_dir env) of
        Inl e \<Rightarrow> (Inl e, fs)
      | Inr fs1 \<Rightarrow>
          (case http_get env (plain_get url) of
             Inl e \<Rightarrow> (Inl e, fs1)
           | Inr resp \<Rightarrow>
               (case raise_for_status resp of
                  Inl e \<Rightarrow> (Inl e, fs1)
                | Inr _ \<Rightarrow>
                    (let ext = (if path_suffix url \<noteq> [] then path_suffix url else cps ''.jpg'');
                         filepath = joinpath (images_dir env) (symbol @ ext)
                     in case write_bytes env fs1 filepath (resp_content resp) of
                          Inl e \<Rightarrow> (Inl e, fs1)
                        | Inr fs2 \<Rightarrow> (Inr filepath, fs2)))))"

text \<open>
  \<open>run_easyocr\<close> imports the module inside the function, so a missing module fails
  there, before the reader is built or the image file is opened.
\<close>

definition run_easyocr :: "env \<Rightarrow> files \<Rightarrow> ppath \<Rightarrow> exn + ocr_line list" where
  "run_easyocr env fs image_path =
     (if \<not> easyocr_installed env then Inl ModuleNotFoundError
      else easyocr_readtext env [cps ''ne'', cps ''en''] (read_file fs image_path))"

section \<open>main.py: the two loops of the run\<close>

text \<open>
  What \<open>main\<close> prints for one fund, after the fund's symbol, and what it collects.
\<close>

datatype outcome =
    Found json
  | NoNavAnnouncement
  | SavedTo pystr
  | NoImageFound
  | ErrorMsg exn

type_synonym log = "(pystr \<times> outcome) list"

record nav_image =
  ni_symbol :: pystr
  ni_name :: pystr
  ni_announcement :: announcement

record download =
  dl_symbol :: pystr
  dl_name :: pystr
  dl_image_path :: pystr
  dl_image_url :: pystr
  dl_announcement_url :: pystr

text \<open>
  Step 2, the loop \<open>for fund in funds\<close>: the body is inside \<open>try\<close>, and
  \<open>except Exception\<close> prints the error and goes on with the next fund.
\<close>

fun main_step2 :: "env \<Rightarrow> fund list \<Rightarrow> log \<times> nav_image list \<Rightarrow> log \<times> nav_image list" where
  "main_step2 env [] st = st"
| "main_step2 env (fund # funds) (lg, nav_images) =
     (let symbol = fund_symbol fund
      in case fetch_fund_announcements env symbol (fund_name fund) of
           Inl e \<Rightarrow> main_step2 env funds (lg @ [(symbol, ErrorMsg e)], nav_images)
         | Inr announcements \<Rightarrow>
             (case find_latest_nav_announcement env announcements of
                Some nav_ann \<Rightarrow>
                  main_step2 env funds
                    (lg @ [(symbol, Found (ann_date nav_ann))],
                     nav_images @
                     [\<lparr>ni_symbol = symbol, ni_name = fund_name fund,
                       ni_announcement = nav_ann\<rparr>])
              | None \<Rightarrow> main_step2 env funds (lg @ [(symbol, NoNavAnnouncement)], nav_images)))"

text \<open>
  Step 3, the loop \<open>for item in nav_images\<close>, with the same \<open>try\<close> around the body.
  The printed name is \<open>filepath.name\<close> and the recorded path is \<open>str(filepath)\<close>.  The
  loop goes on from the file system that the download has left, also after a failure.
\<close>

fun main_step3 ::
  "env \<Rightarrow> nav_image list \<Rightarrow> log \<times> download list \<times> files \<Rightarrow> log \<times> download list \<times> files" where
  "main_step3 env [] st = st"
| "main_step3 env (item # items) (lg, downloaded, fs) =
     (let symbol = ni_symbol item; ann_url' = ann_url (ni_announcement item)
      in case extract_image_url env ann_url' of
           Inl e \<Rightarrow> main_step3 env items (lg @ [(symbol, ErrorMsg e)], downloaded, fs)
         | Inr None \<Rightarrow> main_step3 env items (lg @ [(symbol, NoImageFound)], downloaded, fs)
         | Inr (Some img_url) \<Rightarrow>
             (case download_image env img_url symbol fs of
                (Inl e, fs') \<Rightarrow>
                  main_step3 env items (lg @ [(symbol, ErrorMsg e)], downloaded, fs')
              | (Inr filepath, fs') \<Rightarrow>
                  main_step3 env items
                    (lg @ [(symbol, SavedTo (ppath_name filepath))],
                     downloaded @
                     [\<lparr>dl_symbol = symbol, dl_name = ni_name item,
                       dl_image_path = path_str filepath,
                       dl_image_url = img_url, dl_announcement_url = ann_url'\<rparr>],
                     fs')))"

section \<open>extract_nav.py: the single-image command\<close>

definition get_image :: "env \<Rightarrow> pystr \<Rightarrow> exn + image option" where
  "get_image env source =
     (if prefix (cps ''http'') source
      then (case http_get env \<lparr>req_url = source, req_params = [], req_headers = [],
                                 req_form = []\<rparr> of
              Inl e \<Rightarrow> Inl e
            | Inr response \<Rightarrow>
                (case raise_for_status response of
                   Inl e \<Rightarrow> Inl e
                 | Inr _ \<Rightarrow> cv2_imdecode env (resp_content response)))
      else if path_exists env source then Inr (cv2_imread env source)
      else Inl FileNotFoundError)"

text \<open>
  What the command writes to standard error: the shape line of \<open>preprocess_image\<close>,
  the document of the \<open>TesseractNotFoundError\<close> handler (an \<open>error\<close> and a \<open>command\<close>
  entry) and the document of the general handler (\<open>error\<close> alone, the text of the
  exception).
\<close>

datatype diagnostic =
    ShapeLine nat nat
  | TesseractNotFoundDoc
  | ErrorDoc exn

text \<open>
  \<open>preprocess_image\<close> reads \<open>image.shape\<close> first, which fails on the \<open>None\<close> that
  OpenCV returns for an unreadable source; resize, grey conversion, blur and Otsu
  threshold are OpenCV's.
\<close>

definition preprocess_image :: "env \<Rightarrow> image option \<Rightarrow> diagnostic list \<times> (exn + image)" where
  "preprocess_image env image' =
     (case image' of
        None \<Rightarrow> ([], Inl AttributeError)
      | Some img \<Rightarrow> ([ShapeLine (height img) (width img)], cv2_threshold_pipeline env img))"

text \<open>
  \<open>pytesseract.image_to_string\<close> starts the Tesseract program with the given options:
  a program that cannot be started is a \<open>TesseractNotFoundError\<close>, a run that ends
  with a non-zero status (as it does when the data of the requested language is not
  there) is a \<open>TesseractError\<close> with that status and the program's message.
\<close>

definition image_to_string :: "env \<Rightarrow> pystr \<Rightarrow> image \<Rightarrow> exn + pystr" where
  "image_to_string env config img =
     (if \<not> tesseract_installed env then Inl TesseractNotFoundError
      else case tesseract_run env config img of
             Inl (status, message) \<Rightarrow> Inl (TesseractError status message)
           | Inr text \<Rightarrow> Inr text)"

definition extract_text :: "env \<Rightarrow> image \<Rightarrow> exn + pystr" where
  "extract_text env image' = image_to_string env (cps ''--oem 3 --psm 11 -l nep'') image'"

record args =
  arg_image :: pystr
  arg_debug :: bool

record exit_state =
  stdout :: "parsed list"
  stderr :: "diagnostic list"
  debug_processed :: "image option"
  exit_code :: nat

text \<open>
  The two handlers of \<open>main\<close> in \<open>extract_nav.py\<close>; both end with \<open>sys.exit(1)\<close>.
\<close>

definition handle_exception :: "diagnostic list \<Rightarrow> image option \<Rightarrow> exn \<Rightarrow> exit_state" where
  "handle_exception err dbg e =
     (case e of
        TesseractNotFoundError \<Rightarrow>
          \<lparr>stdout = [], stderr = err @ [TesseractNotFoundDoc], debug_processed = dbg,
           exit_code = 1\<rparr>
      | _ \<Rightarrow> \<lparr>stdout = [], stderr = err @ [ErrorDoc e], debug_processed = dbg, exit_code = 1\<rparr>)"

definition extract_nav_main :: "env \<Rightarrow> args \<Rightarrow> exit_state" where
  "extract_nav_main env a =
     (case get_image env (arg_image a) of
        Inl e \<Rightarrow> handle_exception [] None e
      | Inr img \<Rightarrow>
          (case preprocess_image env img of
             (err, Inl e) \<Rightarrow> handle_exception err None e
           | (err, Inr processed_img) \<Rightarrow>
               (let dbg = (if arg_debug a then Some processed_img else None)
                in case extract_text env processed_img of
                     Inl e \<Rightarrow> handle_exception err dbg e
                   | Inr text \<Rightarrow>
                       \<lparr>stdout = [parse_data text], stderr = err, debug_processed = dbg,
                        exit_code = 0\<rparr>)))"

section \<open>A small site to run the scripts on\<close>

text \<open>
  A directory of three funds.  The profile page of \<open>NIBLSF\<close> carries the token and the
  three hidden fields, the page of \<open>XYZ\<close> (served with status 404) carries none of
  them, and the site does not answer for \<open>BAD\<close>.  The announcement feed has three rows,
  the second without a link.  The detail page \<open>/a/2\<close> shows a downloadable image among
  other elements, the image of the detail page \<open>/a/3\<close> is answered with status 503, and
  any other address is unreachable.  \<open>ascii_lower\<close> is \<open>str.lower\<close> on ASCII text.
  The script lies in the directory \<open>/srv\<close>, which is all that \<open>demo_files\<close> holds; no
  OCR engine is installed, and when Tesseract is taken as installed its run fails for
  lack of the language data.
\<close>

definition ascii_lower :: "pystr \<Rightarrow> pystr" where
  "ascii_lower s = map (\<lambda>c. if 65 \<le> c \<and> c \<le> 90 then c + 32 else c) s"

definition ok_response :: response where
  "ok_response = \<lparr>resp_status = 200, resp_content = [], resp_json = None, resp_soup = []\<rparr>"

definition demo_directory :: json where
  "demo_directory =
     JObj [(cps ''data'',
       JArr [JObj [(cps ''symbol'', JStr (cps ''<a href=\"/company/niblsf\">NIBLSF</a>'')),
                   (cps ''companyname'', JStr (cps ''<a href=\"/company/niblsf\">NIBL Fund</a>'')),
                   (cps ''daily_nav_price'', JNum 10)],
             JObj [(cps ''symbol'', JStr (cps ''<a href=\"/company/bad\">BAD</a>'')),
                   (cps ''companyname'', JStr (cps ''Bad Fund''))],
             JObj [(cps ''symbol'', JStr (cps ''XYZ'')),
                   (cps ''companyname'', JStr (cps ''<a href=\"/company/xyz\">XYZ Fund</a>''))]])]"

definition demo_page_full :: "element list" where
  "demo_page_full =
     [\<lparr>el_tag = cps ''meta'',
       el_attrs = [(cps ''name'', cps ''_token''), (cps ''content'', cps ''t0k3n'')],
       el_text = []\<rparr>,
      \<lparr>el_tag = cps ''div'', el_attrs = [(cps ''id'', cps ''companyid'')], el_text = cps ''42''\<rparr>,
      \<lparr>el_tag = cps ''div'', el_attrs = [(cps ''id'', cps ''symbol'')], el_text = cps ''NIBLSF''\<rparr>,
      \<lparr>el_tag = cps ''div'', el_attrs = [(cps ''id'', cps ''sector'')], el_text = cps ''MF''\<rparr>]"

definition demo_page_bare :: "element list" where
  "demo_page_bare = [\<lparr>el_tag = cps ''title'', el_attrs = [], el_text = cps ''XYZ Fund''\<rparr>]"

definition demo_feed :: json where
  "demo_feed =
     JObj [(cps ''data'',
       JArr [JObj [(cps ''title'', JStr (cps ''<a href=\"/a/1\">Dividend notice</a>'')),
                   (cps ''published_date'', JStr (cps ''2026-01-20''))],
             JObj [(cps ''title'', JStr (cps ''Monthly NAV report'')),
                   (cps ''published_date'', JStr (cps ''2026-01-16''))],
             JObj [(cps ''title'', JStr (cps ''<a href=\"/a/2\">NAV Report of Poush</a>'')),
                   (cps ''published_date'', JStr (cps ''2026-01-15''))]])]"

definition demo_detail :: "element list" where
  "demo_detail =
     [\<lparr>el_tag = cps ''img'', el_attrs = [(cps ''src'', cps ''/logo.png'')], el_text = []\<rparr>,
      \<lparr>el_tag = cps ''img'', el_attrs = [(cps ''alt'', cps ''x'')], el_text = []\<rparr>,
      \<lparr>el_tag = cps ''p'', el_attrs = [(cps ''src'', cps ''/announcement/p.png'')], el_text = []\<rparr>,
      \<lparr>el_tag = cps ''img'', el_attrs = [(cps ''src'', cps ''/announcement/n.jpeg'')],
       el_text = []\<rparr>,
      \<lparr>el_tag = cps ''img'', el_attrs = [(cps ''src'', cps ''/announcement/m.png'')],
       el_text = []\<rparr>]"

definition demo_get :: "request \<Rightarrow> exn + response" where
  "demo_get r =
     (if req_url r = cps ''https://www.sharesansar.com/mutual-fund-navs''
      then Inr (ok_response\<lparr>resp_json := Some demo_directory\<rparr>)
      else if req_url r = cps ''https://www.sharesansar.com/company/niblsf''
      then Inr (ok_response\<lparr>resp_soup := demo_page_full\<rparr>)
      else if req_url r = cps ''https://www.sharesansar.com/company/xyz''
      then Inr (ok_response\<lparr>resp_status := 404, resp_soup := demo_page_bare\<rparr>)
      else if req_url r = cps ''/a/2''
      then Inr (ok_response\<lparr>resp_soup := demo_detail\<rparr>)
      else if req_url r = cps ''/announcement/n.jpeg''
      then Inr (ok_response\<lparr>resp_content := [255, 216, 255]\<rparr>)
      else if req_url r = cps ''/a/3''
      then Inr (ok_response\<lparr>resp_soup :=
             [\<lparr>el_tag = cps ''img'', el_attrs = [(cps ''src'', cps ''/announcement/gone.png'')],
               el_text = []\<rparr>]\<rparr>)
      else if req_url r = cps ''/announcement/gone.png''
      then Inr (ok_response\<lparr>resp_status := 503\<rparr>)
      else Inl ConnectionError)"

definition demo_env :: env where
  "demo_env =
     \<lparr>http_get = demo_get,
      session_post = (\<lambda>page r. Inr (ok_response\<lparr>resp_json := Some demo_feed\<rparr>)),
      str_lower = ascii_lower,
      script_dir = [cps ''srv''],
      os_refuses = (\<lambda>loc. None),
      easyocr_installed = False,
      easyocr_readtext = (\<lambda>langs img. Inr []),
      path_exists = (\<lambda>p. p = cps ''nav.png''),
      cv2_imread = (\<lambda>p. Some (Image 2 3 [])),
      cv2_imdecode = (\<lambda>b. Inr None),
      cv2_threshold_pipeline = (\<lambda>img. Inr (Image (2 * height img) (2 * width img) [])),
      tesseract_installed = False,
      tesseract_run = (\<lambda>config img. Inl (1, cps ''Failed loading language nep''))\<rparr>"

definition demo_files :: files where
  "demo_files = [[cps ''srv''] \<mapsto> Dir]"

section \<open>Facts about the string helpers\<close>

lemma split_on_nonempty: "split_on sep s \<noteq> []"
  by (induction s) (simp_all add: Let_def)

lemma join_with_Cons: "ls \<noteq> [] \<Longrightarrow> join_with sep (l # ls) = l @ sep # join_with sep ls"
  by (cases ls) simp_all

lemma join_split_on: "join_with sep (split_on sep s) = s"
proof (induction s)
  case Nil
  show ?case by simp
next
  case (Cons c cs)
  obtain l ls where r: "split_on sep cs = l # ls"
    using split_on_nonempty [of sep cs] by (cases "split_on sep cs") auto
  show ?case
  proof (cases "c = sep")
    case True
    then show ?thesis
      using Cons.IH split_on_nonempty [of sep cs] by (simp add: Let_def join_with_Cons)
  next
    case False
    have "join_with sep ((c # l) # ls) = c # join_with sep (l # ls)"
      by (cases ls) simp_all
    then show ?thesis
      using False Cons.IH r by (simp add: Let_def)
  qed
qed

lemma split_on_no_sep: "l \<in> set (split_on sep s) \<Longrightarrow> sep \<notin> set l"
proof (induction s arbitrary: l)
  case Nil
  then show ?case by simp
next
  case (Cons c cs)
  obtain l' ls where r: "split_on sep cs = l' # ls"
    using split_on_nonempty [of sep cs] by (cases "split_on sep cs") auto
  show ?case
  proof (cases "c = sep")
    case True
    then show ?thesis
      using Cons by (auto simp: Let_def)
  next
    case False
    then have "l = c # l' \<or> l \<in> set ls"
      using Cons.prems r by (simp add: Let_def)
    moreover have "sep \<notin> set l'" and "\<And>x. x \<in> set ls \<Longrightarrow> sep \<notin> set x"
      using Cons.IH r by simp_all
    ultimately show ?thesis
      using False by auto
  qed
qed

lemma strip_hd: "strip s \<noteq> [] \<Longrightarrow> \<not> isspace (hd (strip s))"
proof -
  assume ne: "strip s \<noteq> []"
  define ys where "ys = dropWhile isspace s"
  have d: "dropWhile isspace (rev ys) \<noteq> []"
    using ne by (simp add: strip_def ys_def)
  then have ysne: "ys \<noteq> []"
    by auto
  have "hd (strip s) = last (dropWhile isspace (rev ys))"
    using d by (simp add: strip_def ys_def hd_rev)
  also have "\<dots> = last (rev ys)"
    using d by (metis last_appendR takeWhile_dropWhile_id)
  also have "\<dots> = hd ys"
    using ysne by (simp add: last_rev)
  finally show ?thesis
    using ysne hd_dropWhile [of isspace s] by (simp add: ys_def)
qed

lemma strip_last: "strip s \<noteq> [] \<Longrightarrow> \<not> isspace (last (strip s))"
proof -
  assume ne: "strip s \<noteq> []"
  define zs where "zs = rev (dropWhile isspace s)"
  have d: "dropWhile isspace zs \<noteq> []"
    using ne by (simp add: strip_def zs_def)
  have "last (strip s) = hd (dropWhile isspace zs)"
    using d by (simp add: strip_def zs_def last_rev)
  then show ?thesis
    using d hd_dropWhile [of isspace zs] by simp
qed

lemma strip_sublist: "sublist (strip s) s"
proof -
  have "suffix (dropWhile isspace s) s"
    by (rule suffix_dropWhile)
  moreover have "prefix (strip s) (dropWhile isspace s)"
  proof -
    have "suffix (dropWhile isspace (rev (dropWhile isspace s))) (rev (dropWhile isspace s))"
      by (rule suffix_dropWhile)
    then show ?thesis
      by (simp add: strip_def suffix_to_prefix)
  qed
  ultimately show ?thesis
    by (meson prefix_imp_sublist suffix_imp_sublist sublist_order.order_trans)
qed

lemma concat_map_keep:
  "concat (map (\<lambda>x. if f x \<noteq> [] then [f x] else []) xs) = filter (\<lambda>l. l \<noteq> []) (map f xs)"
  by (induction xs) simp_all

lemma concat_map_filter:
  "concat (map (\<lambda>x. if P x then [x] else []) xs) = filter P xs"
  by (induction xs) simp_all

section \<open>The candidate extractor keeps the lines and finds the keywords\<close>

text \<open>
  Claim C5.  For every recognised text, \<open>parse_data\<close> emits the trimmed lines of the
  text that are not empty, in their original order: the text is cut at its newlines
  (joining the pieces with newlines gives the text back), every piece is stripped and
  the empty results are dropped, so each emitted line is non-empty and neither starts
  nor ends with whitespace.  \<open>found_keywords\<close> holds exactly the keywords of the fixed
  list that occur somewhere in the text, in the order of that list; when no keyword
  occurs it is empty, and the lines are emitted all the same.
\<close>

theorem parse_data_lines_and_keywords:
  "raw_lines (parse_data text) = filter (\<lambda>l. l \<noteq> []) (map strip (split_on 10 text))
   \<and> join_with 10 (split_on 10 text) = text
   \<and> (\<forall>l \<in> set (raw_lines (parse_data text)).
         l \<noteq> [] \<and> \<not> isspace (hd l) \<and> \<not> isspace (last l))
   \<and> found_keywords (parse_data text) =
       filter (\<lambda>kw. \<exists>pre suf. text = pre @ kw @ suf) keywords_list
   \<and> ((\<forall>kw \<in> set keywords_list. \<not> sublist kw text) \<longrightarrow>
        found_keywords (parse_data text) = [])"
proof -
  have lines: "raw_lines (parse_data text) = filter (\<lambda>l. l \<noteq> []) (map strip (split_on 10 text))"
    by (simp add: parse_data_def concat_map_keep)
  have trimmed: "\<forall>l \<in> set (raw_lines (parse_data text)).
      l \<noteq> [] \<and> \<not> isspace (hd l) \<and> \<not> isspace (last l)"
    unfolding lines using strip_hd strip_last by auto
  have found: "found_keywords (parse_data text) =
      filter (\<lambda>kw. \<exists>pre suf. text = pre @ kw @ suf) keywords_list"
    by (simp add: parse_data_def sublist_def concat_map_filter)
  have none: "(\<forall>kw \<in> set keywords_list. \<not> sublist kw text) \<longrightarrow>
      found_keywords (parse_data text) = []"
    by (simp add: parse_data_def)
  show ?thesis
    using lines trimmed found none join_split_on by blast
qed

theorem parse_data_lines_and_keywords_witness:
  "parse_data (cps ''  NAV 10.5 '' @ [10, 10] @ cps '' x'' @ [9]) =
     \<lparr>found_keywords = [cps ''NAV''], raw_lines = [cps ''NAV 10.5'', cps ''x'']\<rparr>
   \<and> list_all (\<lambda>kw. \<not> sublist kw (cps '' abc '' @ [10, 10] @ cps ''def'')) keywords_list
   \<and> found_keywords (parse_data (cps '' abc '' @ [10, 10] @ cps ''def'')) = []
   \<and> raw_lines (parse_data (cps '' abc '' @ [10, 10] @ cps ''def'')) = [cps ''abc'', cps ''def'']"
proof -
  have h: "\<forall>kw \<in> set keywords_list. \<not> sublist kw (cps '' abc '' @ [10, 10] @ cps ''def'')"
    by (simp add: keywords_list_def cps_def sublist_code)
  have a: "parse_data (cps ''  NAV 10.5 '' @ [10, 10] @ cps '' x'' @ [9]) =
     \<lparr>found_keywords = [cps ''NAV''], raw_lines = [cps ''NAV 10.5'', cps ''x'']\<rparr>"
    by (simp add: parse_data_def keywords_list_def cps_def sublist_code strip_def isspace_def)
  have b: "filter (\<lambda>l. l \<noteq> []) (map strip (split_on 10 (cps '' abc '' @ [10, 10] @ cps ''def'')))
       = [cps ''abc'', cps ''def'']"
    by (simp add: cps_def strip_def isspace_def)
  note t = parse_data_lines_and_keywords [of "cps '' abc '' @ [10, 10] @ cps ''def''"]
  have c: "found_keywords (parse_data (cps '' abc '' @ [10, 10] @ cps ''def'')) = []"
    using t h by blast
  have d: "raw_lines (parse_data (cps '' abc '' @ [10, 10] @ cps ''def'')) =
      [cps ''abc'', cps ''def'']"
    using t b by metis
  show ?thesis
    using h a c d by (simp add: list_all_iff)
qed

section \<open>Regular expressions and the feed loop\<close>

lemma match_at_Some:
  assumes "match_at pre cls post s = Some g"
  shows "g \<noteq> [] \<and> list_all cls g \<and> prefix (pre @ g @ post) s"
proof -
  from assms have p: "prefix pre s"
    by (auto simp: match_at_def split: if_splits)
  define rest where "rest = drop (length pre) s"
  from p have s: "s = pre @ rest"
    by (auto simp: rest_def prefix_def)
  from assms p have g: "g = takeWhile cls rest" and ne: "g \<noteq> []"
    and po: "prefix post (dropWhile cls rest)"
    by (auto simp: match_at_def Let_def rest_def split: if_splits)
  have "rest = g @ dropWhile cls rest"
    by (simp add: g)
  with po obtain t where "rest = g @ post @ t"
    by (metis prefix_def append.assoc)
  with s have "prefix (pre @ g @ post) s"
    by (metis append.assoc prefixI)
  moreover have "list_all cls g"
    by (simp add: g list_all_iff) (meson set_takeWhileD)
  ultimately show ?thesis
    using ne by simp
qed

lemma re_search_Some:
  "re_search pre cls post s = Some g \<Longrightarrow>
     g \<noteq> [] \<and> list_all cls g \<and> sublist (pre @ g @ post) s"
proof (induction s)
  case Nil
  then show ?case
    using match_at_Some [of pre cls post "[]" g] by auto
next
  case (Cons c cs)
  show ?case
  proof (cases "match_at pre cls post (c # cs)")
    case None
    with Cons have "g \<noteq> [] \<and> list_all cls g \<and> sublist (pre @ g @ post) cs"
      by simp
    then show ?thesis
      by (simp add: sublist_Cons_right)
  next
    case (Some h)
    with Cons.prems have "h = g"
      by simp
    with Some show ?thesis
      using match_at_Some [of pre cls post "c # cs" g] by auto
  qed
qed

lemma re_search_None:
  "\<not> sublist pre s \<Longrightarrow> re_search pre cls post s = None"
proof (induction s)
  case Nil
  then show ?case
    by (auto simp: match_at_def)
next
  case (Cons c cs)
  then have "\<not> prefix pre (c # cs)" and "\<not> sublist pre cs"
    by (simp_all add: sublist_Cons_right)
  with Cons.IH show ?case
    by (simp add: match_at_def)
qed

lemma search_href_empty: "search_href [] = None"
  by (simp add: search_href_def match_at_def cps_def)

lemma announcements_loop_rows:
  "list_all readable_row items \<Longrightarrow>
     announcements_loop items acc = Inr (acc @ List.map_filter row_announcement items)"
proof (induction items arbitrary: acc)
  case Nil
  show ?case by (simp add: List.map_filter_simps)
next
  case (Cons item items)
  from Cons.prems have r: "readable_row item" and rs: "list_all readable_row items"
    by simp_all
  from r obtain d where d: "item = JObj d"
    by (cases item) (simp_all add: readable_row_def)
  from r d have t: "as_str (case map_of d (cps ''title'') of Some v \<Rightarrow> v | None \<Rightarrow> JStr []) =
      Inr (row_title item)"
    by (auto simp: readable_row_def row_title_def as_str_def split: option.splits json.splits)
  show ?case
  proof (cases "search_href (row_title item)")
    case None
    then show ?thesis
      using d t Cons.IH [OF rs] by (simp add: List.map_filter_simps row_announcement_def)
  next
    case (Some u)
    then show ?thesis
      using d t Cons.IH [OF rs]
      by (simp add: List.map_filter_simps row_announcement_def row_date_def)
  qed
qed

lemmas demo_defs = demo_env_def demo_get_def ok_response_def demo_directory_def demo_page_full_def
  demo_page_bare_def demo_feed_def demo_detail_def ascii_lower_def cps_def
lemmas re_defs = search_href_def search_anchor_text_def search_symbol_def match_at_def

lemma read_feed_rows:
  assumes "\<not> (400 \<le> resp_status resp \<and> resp_status resp < 600)"
    and "resp_json resp = Some (JObj d)"
    and "map_of d (cps ''data'') = Some (JArr items)"
    and "list_all readable_row items"
  shows "read_feed resp = Inr (List.map_filter row_announcement items)"
  using assms announcements_loop_rows [of items "[]"]
  by (simp add: read_feed_def raise_for_status_def json_get_def json_iter_def)

section \<open>The feed rows that become announcements\<close>

text \<open>
  Claim C10.  When the profile request and the feed request succeed and the feed is a
  JSON object whose \<open>data\<close> is a list of readable rows, \<open>fetch_fund_announcements\<close>
  returns exactly the announcements of the rows whose title contains a match of the
  \<open>href\<close> pattern, in the order of the response; every other row is left out without
  any error.  In particular a row whose title HTML does not contain \<open>href="\<close> is left
  out.  A row that is kept carries the matched address (non-empty, found between
  \<open>href="\<close> and the next quote of the title), the row's date, and as title the anchor
  text, or the empty string when the anchor pattern does not match.
\<close>

theorem fetch_fund_announcements_rows:
  assumes "http_get env (profile_request env symbol) = Inr page"
    and "session_post env page (announcements_request env symbol (resp_soup page)) = Inr resp"
    and "\<not> (400 \<le> resp_status resp \<and> resp_status resp < 600)"
    and "resp_json resp = Some (JObj d)"
    and "map_of d (cps ''data'') = Some (JArr items)"
    and "list_all readable_row items"
  shows "fetch_fund_announcements env symbol nm = Inr (List.map_filter row_announcement items)
    \<and> (\<forall>item \<in> set items.
          (\<not> sublist (cps ''href=\"'') (row_title item) \<longrightarrow> row_announcement item = None)
        \<and> (row_announcement item = None \<longleftrightarrow> search_href (row_title item) = None)
        \<and> (\<forall>a. row_announcement item = Some a \<longrightarrow>
              search_href (row_title item) = Some (ann_url a)
            \<and> ann_url a \<noteq> []
            \<and> sublist (cps ''href=\"'' @ ann_url a @ cps ''\"'') (row_title item)
            \<and> ann_date a = row_date item
            \<and> (search_anchor_text (row_title item) = None \<longrightarrow> ann_title a = [])
            \<and> (\<forall>t. search_anchor_text (row_title item) = Some t \<longrightarrow> ann_title a = t)))"
proof -
  have f: "fetch_fund_announcements env symbol nm = Inr (List.map_filter row_announcement items)"
    using assms read_feed_rows [of resp d items]
    by (simp add: fetch_fund_announcements_def)
  have r: "\<not> sublist (cps ''href=\"'') t \<Longrightarrow> search_href t = None" for t
    unfolding search_href_def by (rule re_search_None)
  have n: "\<not> sublist (cps ''href=\"'') (row_title item) \<longrightarrow> row_announcement item = None" for item
    using r [of "row_title item"] by (simp add: row_announcement_def)
  have e: "row_announcement item = None \<longleftrightarrow> search_href (row_title item) = None" for item
    by (simp add: row_announcement_def split: option.splits)
  have s: "row_announcement item = Some a \<longrightarrow>
              search_href (row_title item) = Some (ann_url a)
            \<and> ann_url a \<noteq> []
            \<and> sublist (cps ''href=\"'' @ ann_url a @ cps ''\"'') (row_title item)
            \<and> ann_date a = row_date item
            \<and> (search_anchor_text (row_title item) = None \<longrightarrow> ann_title a = [])
            \<and> (\<forall>t. search_anchor_text (row_title item) = Some t \<longrightarrow> ann_title a = t)" for item a
  proof
    assume a: "row_announcement item = Some a"
    then obtain u where u: "search_href (row_title item) = Some u"
      and au: "a = \<lparr>ann_date = row_date item,
                ann_title = (case search_anchor_text (row_title item) of
                               Some t \<Rightarrow> t | None \<Rightarrow> []),
                ann_url = u\<rparr>"
      by (auto simp: row_announcement_def split: option.splits)
    from u have "u \<noteq> [] \<and> sublist (cps ''href=\"'' @ u @ cps ''\"'') (row_title item)"
      unfolding search_href_def using re_search_Some by blast
    with u show "search_href (row_title item) = Some (ann_url a)
            \<and> ann_url a \<noteq> []
            \<and> sublist (cps ''href=\"'' @ ann_url a @ cps ''\"'') (row_title item)
            \<and> ann_date a = row_date item
            \<and> (search_anchor_text (row_title item) = None \<longrightarrow> ann_title a = [])
            \<and> (\<forall>t. search_anchor_text (row_title item) = Some t \<longrightarrow> ann_title a = t)"
      by (simp add: au)
  qed
  show ?thesis
    using f n e s by blast
qed

theorem fetch_fund_announcements_rows_witness:
  "fetch_fund_announcements demo_env (cps ''NIBLSF'') (cps ''NIBL Fund'') =
     Inr [\<lparr>ann_date = JStr (cps ''2026-01-20''), ann_title = cps ''Dividend notice'',
           ann_url = cps ''/a/1''\<rparr>,
          \<lparr>ann_date = JStr (cps ''2026-01-15''), ann_title = cps ''NAV Report of Poush'',
           ann_url = cps ''/a/2''\<rparr>]
   \<and> row_announcement (JObj [(cps ''title'', JStr (cps ''Monthly NAV report'')),
                            (cps ''published_date'', JStr (cps ''2026-01-16''))]) = None"
proof -
  let ?page = "ok_response\<lparr>resp_soup := demo_page_full\<rparr>"
  let ?resp = "ok_response\<lparr>resp_json := Some demo_feed\<rparr>"
  let ?items = "[JObj [(cps ''title'', JStr (cps ''<a href=\"/a/1\">Dividend notice</a>'')),
                   (cps ''published_date'', JStr (cps ''2026-01-20''))],
             JObj [(cps ''title'', JStr (cps ''Monthly NAV report'')),
                   (cps ''published_date'', JStr (cps ''2026-01-16''))],
             JObj [(cps ''title'', JStr (cps ''<a href=\"/a/2\">NAV Report of Poush</a>'')),
                   (cps ''published_date'', JStr (cps ''2026-01-15''))]]"
  have 1: "http_get demo_env (profile_request demo_env (cps ''NIBLSF'')) = Inr ?page"
    by (simp add: profile_request_def company_url_def demo_defs)
  have 2: "session_post demo_env ?page
      (announcements_request demo_env (cps ''NIBLSF'') (resp_soup ?page)) = Inr ?resp"
    by (simp add: demo_env_def)
  have 3: "\<not> (400 \<le> resp_status ?resp \<and> resp_status ?resp < 600)"
    by (simp add: ok_response_def)
  have 4: "resp_json ?resp = Some (JObj [(cps ''data'', JArr ?items)])"
    by (simp add: demo_feed_def)
  have 5: "map_of [(cps ''data'', JArr ?items)] (cps ''data'') = Some (JArr ?items)"
    by simp
  have 6: "list_all readable_row ?items"
    by (simp add: readable_row_def cps_def)
  note t = fetch_fund_announcements_rows [OF 1 2 3 4 5 6, of "cps ''NIBL Fund''"]
  have 7: "List.map_filter row_announcement ?items =
     [\<lparr>ann_date = JStr (cps ''2026-01-20''), ann_title = cps ''Dividend notice'',
           ann_url = cps ''/a/1''\<rparr>,
          \<lparr>ann_date = JStr (cps ''2026-01-15''), ann_title = cps ''NAV Report of Poush'',
           ann_url = cps ''/a/2''\<rparr>]"
    by (simp add: List.map_filter_simps row_announcement_def row_title_def row_date_def re_defs cps_def)
  have 8: "\<not> sublist (cps ''href=\"'') (row_title (JObj [(cps ''title'', JStr (cps ''Monthly NAV report'')),
                            (cps ''published_date'', JStr (cps ''2026-01-16''))]))"
    by (simp add: row_title_def cps_def sublist_code)
  from t 8 have "row_announcement (JObj [(cps ''title'', JStr (cps ''Monthly NAV report'')),
                            (cps ''published_date'', JStr (cps ''2026-01-16''))]) = None"
    by simp
  with t 7 show ?thesis
    by simp
qed

section \<open>A profile page without token or hidden fields\<close>

text \<open>
  Claim C1 says that \<open>fetch_fund_announcements\<close> fails with a \<open>ScrapeError\<close> when the
  token or a hidden field cannot be scraped.  On the small site the profile page of
  \<open>XYZ\<close> (an error page with a single \<open>title\<close> element) has no token element and none
  of the three hidden fields, and the call still returns the two announcements of the
  feed.
\<close>

theorem fetch_fund_announcements_missing_fields_counterexample:
  "find_meta_token demo_page_bare = None
   \<and> find_id demo_page_bare (cps ''companyid'') = None
   \<and> find_id demo_page_bare (cps ''symbol'') = None
   \<and> find_id demo_page_bare (cps ''sector'') = None
   \<and> http_get demo_env (profile_request demo_env (cps ''XYZ'')) =
       Inr (ok_response\<lparr>resp_status := 404, resp_soup := demo_page_bare\<rparr>)
   \<and> fetch_fund_announcements demo_env (cps ''XYZ'') (cps ''XYZ Fund'') =
       Inr [\<lparr>ann_date = JStr (cps ''2026-01-20''), ann_title = cps ''Dividend notice'',
             ann_url = cps ''/a/1''\<rparr>,
            \<lparr>ann_date = JStr (cps ''2026-01-15''), ann_title = cps ''NAV Report of Poush'',
             ann_url = cps ''/a/2''\<rparr>]"
  by (simp add: fetch_fund_announcements_def read_feed_def profile_request_def company_url_def
      announcements_request_def raise_for_status_def json_get_def json_iter_def as_str_def
      find_meta_token_def find_id_def demo_defs re_defs)

text \<open>
  Claim C1, as the code has it.  Once the profile page has been received, whatever it
  contains, \<open>fetch_fund_announcements\<close> goes on to send the announcement query and
  its result is what reading the feed gives (or the failure of that query).  A missing
  token element makes the token header the empty string, a missing company-id or
  sector field makes the form value the empty string, and a missing symbol field makes
  the form value the symbol the function was called with.
\<close>

theorem fetch_fund_announcements_defaults:
  assumes "http_get env (profile_request env symbol) = Inr page"
  shows "fetch_fund_announcements env symbol nm =
           (case session_post env page (announcements_request env symbol (resp_soup page)) of
              Inl e \<Rightarrow> Inl e
            | Inr resp \<Rightarrow> read_feed resp)
    \<and> (find_meta_token (resp_soup page) = None \<longrightarrow>
         map_of (req_headers (announcements_request env symbol (resp_soup page)))
           (cps ''X-CSRF-Token'') = Some (Some []))
    \<and> (find_id (resp_soup page) (cps ''companyid'') = None \<longrightarrow>
         map_of (req_form (announcements_request env symbol (resp_soup page)))
           (cps ''company'') = Some [])
    \<and> (find_id (resp_soup page) (cps ''symbol'') = None \<longrightarrow>
         map_of (req_form (announcements_request env symbol (resp_soup page)))
           (cps ''symbol'') = Some symbol)
    \<and> (find_id (resp_soup page) (cps ''sector'') = None \<longrightarrow>
         map_of (req_form (announcements_request env symbol (resp_soup page)))
           (cps ''sector'') = Some [])"
proof -
  have 1: "fetch_fund_announcements env symbol nm =
           (case session_post env page (announcements_request env symbol (resp_soup page)) of
              Inl e \<Rightarrow> Inl e
            | Inr resp \<Rightarrow> read_feed resp)"
    using assms by (simp add: fetch_fund_announcements_def)
  have 2: "find_meta_token soup = None \<longrightarrow>
         map_of (req_headers (announcements_request env symbol soup))
           (cps ''X-CSRF-Token'') = Some (Some [])" for soup
    by (simp add: announcements_request_def user_agent_def cps_def)
  have 3: "find_id soup (cps ''companyid'') = None \<longrightarrow>
         map_of (req_form (announcements_request env symbol soup)) (cps ''company'') = Some []"
    for soup
    by (simp add: announcements_request_def Let_def cps_def)
  have 4: "find_id soup (cps ''symbol'') = None \<longrightarrow>
         map_of (req_form (announcements_request env symbol soup)) (cps ''symbol'') = Some symbol"
    for soup
    by (simp add: announcements_request_def Let_def cps_def)
  have 5: "find_id soup (cps ''sector'') = None \<longrightarrow>
         map_of (req_form (announcements_request env symbol soup)) (cps ''sector'') = Some []"
    for soup
    by (simp add: announcements_request_def Let_def cps_def)
  show ?thesis
    using 1 2 3 4 5 by blast
qed

theorem fetch_fund_announcements_defaults_witness:
  "fetch_fund_announcements demo_env (cps ''XYZ'') (cps ''XYZ Fund'') =
     read_feed (ok_response\<lparr>resp_json := Some demo_feed\<rparr>)
   \<and> map_of (req_headers (announcements_request demo_env (cps ''XYZ'') demo_page_bare))
        (cps ''X-CSRF-Token'') = Some (Some [])
   \<and> map_of (req_form (announcements_request demo_env (cps ''XYZ'') demo_page_bare))
        (cps ''company'') = Some []
   \<and> map_of (req_form (announcements_request demo_env (cps ''XYZ'') demo_page_bare))
        (cps ''symbol'') = Some (cps ''XYZ'')
   \<and> map_of (req_form (announcements_request demo_env (cps ''XYZ'') demo_page_bare))
        (cps ''sector'') = Some []"
proof -
  let ?page = "ok_response\<lparr>resp_status := 404, resp_soup := demo_page_bare\<rparr>"
  have g: "http_get demo_env (profile_request demo_env (cps ''XYZ'')) = Inr ?page"
    by (simp add: profile_request_def company_url_def demo_defs)
  have m: "find_meta_token demo_page_bare = None"
    "find_id demo_page_bare (cps ''companyid'') = None"
    "find_id demo_page_bare (cps ''symbol'') = None"
    "find_id demo_page_bare (cps ''sector'') = None"
    by (simp_all add: find_meta_token_def find_id_def demo_page_bare_def cps_def)
  have s: "resp_soup ?page = demo_page_bare"
    by simp
  have p: "session_post demo_env ?page r = Inr (ok_response\<lparr>resp_json := Some demo_feed\<rparr>)" for r
    by (simp add: demo_env_def)
  show ?thesis
    using fetch_fund_announcements_defaults [OF g, of "cps ''XYZ Fund''"] m
    unfolding s p by simp
qed

section \<open>A directory response without its top-level field\<close>

text \<open>
  Claim C3 says that \<open>fetch_open_end_funds\<close> fails with a \<open>FormatError\<close> when the
  top-level field of the response is missing and never returns an empty list for such
  a response.  Let the site answer the directory request with status 200 and the JSON
  object \<open>{"draw": 1}\<close>, which has no \<open>data\<close> entry: the call returns the empty list.
\<close>

theorem fetch_open_end_funds_missing_field_counterexample:
  "map_of [(cps ''draw'', JNum 1)] (cps ''data'') = None
   \<and> fetch_open_end_funds
        (demo_env\<lparr>http_get :=
           \<lambda>r. Inr (ok_response\<lparr>resp_json := Some (JObj [(cps ''draw'', JNum 1)])\<rparr>)\<rparr>) = Inr []"
  by (simp add: fetch_open_end_funds_def read_directory_def raise_for_status_def json_get_def
      json_iter_def ok_response_def cps_def)

text \<open>
  Claim C3, as the code has it.  A failure of the request is returned as it is, a
  response with a status from 400 to 599 gives the \<open>HTTPError\<close> of that status, and a
  response with another status whose JSON object has no \<open>data\<close> entry gives the empty
  list of funds, without any error.
\<close>

theorem fetch_open_end_funds_outcomes:
  "(http_get env funds_request = Inl e \<longrightarrow> fetch_open_end_funds env = Inl e)
   \<and> (http_get env funds_request = Inr resp \<and> 400 \<le> resp_status resp \<and> resp_status resp < 600
        \<longrightarrow> fetch_open_end_funds env = Inl (HTTPError (resp_status resp)))
   \<and> (http_get env funds_request = Inr resp
        \<and> \<not> (400 \<le> resp_status resp \<and> resp_status resp < 600)
        \<and> resp_json resp = Some (JObj d) \<and> map_of d (cps ''data'') = None
        \<longrightarrow> fetch_open_end_funds env = Inr [])"
  by (simp add: fetch_open_end_funds_def read_directory_def raise_for_status_def json_get_def
      json_iter_def)

theorem fetch_open_end_funds_outcomes_witness:
  "fetch_open_end_funds (demo_env\<lparr>http_get := \<lambda>r. Inl ConnectionError\<rparr>) = Inl ConnectionError
   \<and> fetch_open_end_funds (demo_env\<lparr>http_get := \<lambda>r. Inr (ok_response\<lparr>resp_status := 503\<rparr>)\<rparr>) =
       Inl (HTTPError 503)
   \<and> fetch_open_end_funds
        (demo_env\<lparr>http_get := \<lambda>r. Inr (ok_response\<lparr>resp_json := Some (JObj [])\<rparr>)\<rparr>) = Inr []"
proof -
  let ?e1 = "demo_env\<lparr>http_get := \<lambda>r. Inl ConnectionError\<rparr>"
  let ?r2 = "ok_response\<lparr>resp_status := 503\<rparr>"
  let ?e2 = "demo_env\<lparr>http_get := \<lambda>r. Inr ?r2\<rparr>"
  let ?r3 = "ok_response\<lparr>resp_json := Some (JObj [])\<rparr>"
  let ?e3 = "demo_env\<lparr>http_get := \<lambda>r. Inr ?r3\<rparr>"
  have 1: "http_get ?e1 funds_request = Inl ConnectionError"
    by simp
  have 2: "http_get ?e2 funds_request = Inr ?r2 \<and> 400 \<le> resp_status ?r2 \<and> resp_status ?r2 < 600"
    by (simp add: ok_response_def)
  have 3: "http_get ?e3 funds_request = Inr ?r3
        \<and> \<not> (400 \<le> resp_status ?r3 \<and> resp_status ?r3 < 600)
        \<and> resp_json ?r3 = Some (JObj []) \<and> map_of [] (cps ''data'') = None"
    by (simp add: ok_response_def)
  have a: "fetch_open_end_funds ?e1 = Inl ConnectionError"
    using fetch_open_end_funds_outcomes [of ?e1 ConnectionError] 1 by blast
  have b: "fetch_open_end_funds ?e2 = Inl (HTTPError (resp_status ?r2))"
    using fetch_open_end_funds_outcomes [of ?e2 _ ?r2] 2 by blast
  have c: "fetch_open_end_funds ?e3 = Inr []"
    using fetch_open_end_funds_outcomes [of ?e3 _ ?r3 "[]"] 3 by blast
  have s: "resp_status ?r2 = 503"
    by simp
  show ?thesis
    using a b c unfolding s by blast
qed

section \<open>The first disclosure announcement\<close>

lemma find_latest_is_find:
  "find_latest_nav_announcement env anns = find (\<lambda>a. is_nav_title env (ann_title a)) anns"
  by (induction anns) simp_all

lemma find_split:
  "find P xs = Some a \<Longrightarrow> \<exists>pre post. xs = pre @ a # post \<and> P a \<and> (\<forall>b \<in> set pre. \<not> P b)"
proof (induction xs)
  case Nil
  then show ?case by simp
next
  case (Cons x xs)
  show ?case
  proof (cases "P x")
    case True
    with Cons.prems have "x = a" by simp
    with True have "x # xs = [] @ a # xs \<and> P a \<and> (\<forall>b \<in> set []. \<not> P b)" by simp
    then show ?thesis by blast
  next
    case False
    with Cons obtain pre post where "xs = pre @ a # post" "P a" "\<forall>b \<in> set pre. \<not> P b"
      by auto
    with False have "x # xs = (x # pre) @ a # post \<and> P a \<and> (\<forall>b \<in> set (x # pre). \<not> P b)"
      by simp
    then show ?thesis by blast
  qed
qed

text \<open>
  Claim C4.  \<open>find_latest_nav_announcement\<close> returns the first announcement of the list
  whose title, lower-cased, contains \<open>nav\<close> or \<open>net assets value\<close>: it returns an
  announcement exactly when the list splits into entries that do not match, that
  announcement, and a rest.  It returns \<open>None\<close> exactly when no title matches; it has
  no failing outcome.  Two titles with the same lower-cased form are treated alike.
  When the announcements of a fund were fetched and none matches, the run logs
  \<open>NoNavAnnouncement\<close> for the fund, collects nothing for it and goes on with the
  remaining funds.
\<close>

theorem find_latest_nav_announcement_first_match:
  "find_latest_nav_announcement env anns = find (\<lambda>a. is_nav_title env (ann_title a)) anns
   \<and> (find_latest_nav_announcement env anns = None \<longleftrightarrow>
        (\<forall>a \<in> set anns. \<not> is_nav_title env (ann_title a)))
   \<and> (\<forall>a. find_latest_nav_announcement env anns = Some a \<longrightarrow>
          (\<exists>pre post. anns = pre @ a # post \<and> is_nav_title env (ann_title a)
             \<and> (\<forall>b \<in> set pre. \<not> is_nav_title env (ann_title b))))
   \<and> (is_nav_title env t \<longleftrightarrow>
        sublist (cps ''nav'') (str_lower env t) \<or>
        sublist (cps ''net assets value'') (str_lower env t))
   \<and> (str_lower env t = str_lower env t' \<longrightarrow> is_nav_title env t = is_nav_title env t')
   \<and> (fetch_fund_announcements env (fund_symbol f) (fund_name f) = Inr anns
        \<and> (\<forall>a \<in> set anns. \<not> is_nav_title env (ann_title a)) \<longrightarrow>
        main_step2 env (f # funds) (lg, imgs) =
          main_step2 env funds (lg @ [(fund_symbol f, NoNavAnnouncement)], imgs))"
proof -
  have 1: "find_latest_nav_announcement env anns =
      find (\<lambda>a. is_nav_title env (ann_title a)) anns"
    by (rule find_latest_is_find)
  have 2: "find_latest_nav_announcement env anns = None \<longleftrightarrow>
      (\<forall>a \<in> set anns. \<not> is_nav_title env (ann_title a))"
    unfolding 1 by (auto simp: find_None_iff)
  have 3: "\<forall>a. find_latest_nav_announcement env anns = Some a \<longrightarrow>
          (\<exists>pre post. anns = pre @ a # post \<and> is_nav_title env (ann_title a)
             \<and> (\<forall>b \<in> set pre. \<not> is_nav_title env (ann_title b)))"
    unfolding 1 using find_split [of "\<lambda>a. is_nav_title env (ann_title a)" anns] by blast
  have 4: "is_nav_title env t \<longleftrightarrow>
        sublist (cps ''nav'') (str_lower env t) \<or>
        sublist (cps ''net assets value'') (str_lower env t)"
    by (simp add: is_nav_title_def Let_def)
  have 5: "str_lower env t = str_lower env t' \<longrightarrow> is_nav_title env t = is_nav_title env t'"
    by (simp add: is_nav_title_def Let_def)
  have 6: "fetch_fund_announcements env (fund_symbol f) (fund_name f) = Inr anns
        \<and> (\<forall>a \<in> set anns. \<not> is_nav_title env (ann_title a)) \<longrightarrow>
        main_step2 env (f # funds) (lg, imgs) =
          main_step2 env funds (lg @ [(fund_symbol f, NoNavAnnouncement)], imgs)"
    using 2 by (auto simp: Let_def)
  show ?thesis
    using 1 2 3 4 5 6 by blast
qed


theorem find_latest_nav_announcement_first_match_witness:
  "find_latest_nav_announcement demo_env
     [\<lparr>ann_date = JNull, ann_title = cps ''Dividend notice'', ann_url = cps ''/a/1''\<rparr>,
      \<lparr>ann_date = JNull, ann_title = cps ''Net Assets Value of Poush'', ann_url = cps ''/a/2''\<rparr>,
      \<lparr>ann_date = JNull, ann_title = cps ''Monthly NAV'', ann_url = cps ''/a/3''\<rparr>] =
     Some \<lparr>ann_date = JNull, ann_title = cps ''Net Assets Value of Poush'', ann_url = cps ''/a/2''\<rparr>
   \<and> find_latest_nav_announcement demo_env
       [\<lparr>ann_date = JNull, ann_title = cps ''Dividend notice'', ann_url = cps ''/a/1''\<rparr>] = None
   \<and> main_step2
       (demo_env\<lparr>session_post := \<lambda>page r. Inr (ok_response\<lparr>resp_json := Some (JObj
          [(cps ''data'', JArr [JObj [(cps ''title'',
               JStr (cps ''<a href=\"/a/1\">Dividend notice</a>''))]])])\<rparr>)\<rparr>)
       [\<lparr>fund_symbol = cps ''NIBLSF'', fund_name = cps ''NIBL Fund'', fund_size = JNull,
         daily_nav = JNull, daily_date = JNull, weekly_nav = JNull, weekly_date = JNull,
         monthly_nav = JNull, monthly_date = JNull\<rparr>] ([], []) =
       ([(cps ''NIBLSF'', NoNavAnnouncement)], [])"
proof -
  let ?a1 = "\<lparr>ann_date = JNull, ann_title = cps ''Dividend notice'', ann_url = cps ''/a/1''\<rparr>"
  let ?a2 = "\<lparr>ann_date = JNull, ann_title = cps ''Net Assets Value of Poush'',
              ann_url = cps ''/a/2''\<rparr>"
  let ?a3 = "\<lparr>ann_date = JNull, ann_title = cps ''Monthly NAV'', ann_url = cps ''/a/3''\<rparr>"
  let ?env = "demo_env\<lparr>session_post := \<lambda>page r. Inr (ok_response\<lparr>resp_json := Some (JObj
          [(cps ''data'', JArr [JObj [(cps ''title'',
               JStr (cps ''<a href=\"/a/1\">Dividend notice</a>''))]])])\<rparr>)\<rparr>"
  let ?f = "\<lparr>fund_symbol = cps ''NIBLSF'', fund_name = cps ''NIBL Fund'', fund_size = JNull,
         daily_nav = JNull, daily_date = JNull, weekly_nav = JNull, weekly_date = JNull,
         monthly_nav = JNull, monthly_date = JNull\<rparr>"
  let ?d = "\<lparr>ann_date = JStr [], ann_title = cps ''Dividend notice'', ann_url = cps ''/a/1''\<rparr>"
  have n1: "\<not> is_nav_title demo_env (ann_title ?a1)"
    by (simp add: is_nav_title_def demo_env_def ascii_lower_def cps_def sublist_code)
  have y2: "is_nav_title demo_env (ann_title ?a2)"
    by (simp add: is_nav_title_def demo_env_def ascii_lower_def cps_def sublist_code)
  have a: "find_latest_nav_announcement demo_env [?a1, ?a2, ?a3] = Some ?a2"
    using find_latest_nav_announcement_first_match [of demo_env "[?a1, ?a2, ?a3]"] n1 y2
    by simp
  have b: "find_latest_nav_announcement demo_env [?a1] = None"
    using find_latest_nav_announcement_first_match [of demo_env "[?a1]"] n1
    by simp
  have f: "fetch_fund_announcements ?env (fund_symbol ?f) (fund_name ?f) = Inr [?d]"
    by (simp add: fetch_fund_announcements_def read_feed_def profile_request_def company_url_def
      raise_for_status_def json_get_def json_iter_def as_str_def demo_defs re_defs)
  have nd: "\<forall>a \<in> set [?d]. \<not> is_nav_title ?env (ann_title a)"
    by (simp add: is_nav_title_def demo_env_def ascii_lower_def cps_def sublist_code)
  have c: "main_step2 ?env [?f] ([], []) = ([(cps ''NIBLSF'', NoNavAnnouncement)], [])"
    using find_latest_nav_announcement_first_match [of ?env "[?d]" _ _ ?f "[]" "[]" "[]"] f nd
    by simp
  show ?thesis
    using a b c by blast
qed

section \<open>The image of an announcement page\<close>

lemma img_loop_is_find: "img_loop imgs = find is_announcement_image (map img_src imgs)"
  by (induction imgs) (simp_all add: Let_def)

lemma img_loop_None: "img_loop imgs = None \<longleftrightarrow> (\<forall>e \<in> set imgs. \<not> is_announcement_image (img_src e))"
  by (induction imgs) (simp_all add: Let_def)

lemma img_loop_Some:
  "img_loop imgs = Some s \<Longrightarrow>
     \<exists>pre e post. imgs = pre @ e # post \<and> img_src e = s \<and> is_announcement_image s
       \<and> (\<forall>b \<in> set pre. \<not> is_announcement_image (img_src b))"
proof (induction imgs)
  case Nil
  then show ?case by simp
next
  case (Cons x xs)
  show ?case
  proof (cases "is_announcement_image (img_src x)")
    case True
    with Cons.prems have "img_src x = s" by (simp add: Let_def)
    with True have "x # xs = [] @ x # xs \<and> img_src x = s \<and> is_announcement_image s
       \<and> (\<forall>b \<in> set []. \<not> is_announcement_image (img_src b))"
      by simp
    then show ?thesis by blast
  next
    case False
    with Cons obtain pre e post where "xs = pre @ e # post" "img_src e = s"
      "is_announcement_image s" "\<forall>b \<in> set pre. \<not> is_announcement_image (img_src b)"
      by (auto simp: Let_def)
    with False have "x # xs = (x # pre) @ e # post \<and> img_src e = s \<and> is_announcement_image s
       \<and> (\<forall>b \<in> set (x # pre). \<not> is_announcement_image (img_src b))"
      by simp
    then show ?thesis by blast
  qed
qed

text \<open>
  Claim C9.  When the detail page is received with a status outside 400 to 599,
  \<open>extract_image_url\<close> returns the \<open>src\<close> of the first \<open>img\<close> element of the page, in
  document order, whose \<open>src\<close> contains \<open>announcement\<close> and ends with \<open>.jpg\<close>, \<open>.jpeg\<close>
  or \<open>.png\<close>; it returns \<open>None\<close>, and no error, exactly when no \<open>img\<close> element of the
  page has such a \<open>src\<close>.  On \<open>None\<close> the run logs \<open>NoImageFound\<close> for the fund,
  downloads nothing for it and goes on with the remaining items.
\<close>

theorem extract_image_url_first_candidate:
  assumes "http_get env (plain_get u) = Inr resp"
    and "\<not> (400 \<le> resp_status resp \<and> resp_status resp < 600)"
  shows "extract_image_url env u =
           Inr (find is_announcement_image
                  (map img_src (filter (\<lambda>e. el_tag e = cps ''img'') (resp_soup resp))))
    \<and> (extract_image_url env u = Inr None \<longleftrightarrow>
         (\<forall>e \<in> set (resp_soup resp).
            el_tag e = cps ''img'' \<longrightarrow> \<not> is_announcement_image (img_src e)))
    \<and> (\<forall>s. extract_image_url env u = Inr (Some s) \<longrightarrow>
          (\<exists>pre e post. filter (\<lambda>e. el_tag e = cps ''img'') (resp_soup resp) = pre @ e # post
             \<and> img_src e = s
             \<and> sublist (cps ''announcement'') s
             \<and> (suffix (cps ''.jpg'') s \<or> suffix (cps ''.jpeg'') s \<or> suffix (cps ''.png'') s)
             \<and> (\<forall>b \<in> set pre. \<not> is_announcement_image (img_src b))))
    \<and> (extract_image_url env (ann_url (ni_announcement item)) = Inr None \<longrightarrow>
         main_step3 env (item # items) (lg, downloaded, fs) =
           main_step3 env items (lg @ [(ni_symbol item, NoImageFound)], downloaded, fs))"
proof -
  let ?imgs = "filter (\<lambda>e. el_tag e = cps ''img'') (resp_soup resp)"
  have r: "extract_image_url env u = Inr (img_loop ?imgs)"
    using assms by (simp add: extract_image_url_def raise_for_status_def)
  have 1: "extract_image_url env u = Inr (find is_announcement_image (map img_src ?imgs))"
    unfolding r by (simp add: img_loop_is_find)
  have 2: "extract_image_url env u = Inr None \<longleftrightarrow>
         (\<forall>e \<in> set (resp_soup resp).
            el_tag e = cps ''img'' \<longrightarrow> \<not> is_announcement_image (img_src e))"
    unfolding r by (auto simp: img_loop_None)
  have 3: "\<forall>s. extract_image_url env u = Inr (Some s) \<longrightarrow>
          (\<exists>pre e post. ?imgs = pre @ e # post
             \<and> img_src e = s
             \<and> sublist (cps ''announcement'') s
             \<and> (suffix (cps ''.jpg'') s \<or> suffix (cps ''.jpeg'') s \<or> suffix (cps ''.png'') s)
             \<and> (\<forall>b \<in> set pre. \<not> is_announcement_image (img_src b)))"
  proof (intro allI impI)
    fix s
    assume "extract_image_url env u = Inr (Some s)"
    then have "img_loop ?imgs = Some s"
      unfolding r by simp
    from img_loop_Some [OF this] obtain pre e post where
      "?imgs = pre @ e # post" "img_src e = s" "is_announcement_image s"
      "\<forall>b \<in> set pre. \<not> is_announcement_image (img_src b)"
      by blast
    then have "?imgs = pre @ e # post
             \<and> img_src e = s
             \<and> sublist (cps ''announcement'') s
             \<and> (suffix (cps ''.jpg'') s \<or> suffix (cps ''.jpeg'') s \<or> suffix (cps ''.png'') s)
             \<and> (\<forall>b \<in> set pre. \<not> is_announcement_image (img_src b))"
      by (simp add: is_announcement_image_def)
    then show "\<exists>pre e post. ?imgs = pre @ e # post
             \<and> img_src e = s
             \<and> sublist (cps ''announcement'') s
             \<and> (suffix (cps ''.jpg'') s \<or> suffix (cps ''.jpeg'') s \<or> suffix (cps ''.png'') s)
             \<and> (\<forall>b \<in> set pre. \<not> is_announcement_image (img_src b))"
      by blast
  qed
  have 4: "extract_image_url env (ann_url (ni_announcement item)) = Inr None \<longrightarrow>
         main_step3 env (item # items) (lg, downloaded, fs) =
           main_step3 env items (lg @ [(ni_symbol item, NoImageFound)], downloaded, fs)"
    by (simp add: Let_def)
  show ?thesis
    using 1 2 3 4 by blast
qed

theorem extract_image_url_first_candidate_witness:
  "extract_image_url demo_env (cps ''/a/2'') = Inr (Some (cps ''/announcement/n.jpeg''))
   \<and> extract_image_url
       (demo_env\<lparr>http_get := \<lambda>r. Inr (ok_response\<lparr>resp_soup :=
          [\<lparr>el_tag = cps ''img'', el_attrs = [(cps ''src'', cps ''/logo.png'')], el_text = []\<rparr>,
           \<lparr>el_tag = cps ''img'', el_attrs = [(cps ''src'', cps ''/announcement/n.JPG'')],
            el_text = []\<rparr>]\<rparr>)\<rparr>) (cps ''/a/2'') = Inr None"
proof -
  let ?resp = "ok_response\<lparr>resp_soup := demo_detail\<rparr>"
  let ?soup2 = "[\<lparr>el_tag = cps ''img'', el_attrs = [(cps ''src'', cps ''/logo.png'')], el_text = []\<rparr>,
           \<lparr>el_tag = cps ''img'', el_attrs = [(cps ''src'', cps ''/announcement/n.JPG'')],
            el_text = []\<rparr>]"
  let ?resp2 = "ok_response\<lparr>resp_soup := ?soup2\<rparr>"
  let ?env2 = "demo_env\<lparr>http_get := \<lambda>r. Inr ?resp2\<rparr>"
  have g: "http_get demo_env (plain_get (cps ''/a/2'')) = Inr ?resp"
    by (simp add: plain_get_def demo_env_def demo_get_def cps_def)
  have ok: "\<not> (400 \<le> resp_status ?resp \<and> resp_status ?resp < 600)"
    by (simp add: ok_response_def)
  have v: "find is_announcement_image
       (map img_src (filter (\<lambda>e. el_tag e = cps ''img'') (resp_soup ?resp))) =
       Some (cps ''/announcement/n.jpeg'')"
    by (simp add: demo_detail_def img_src_def is_announcement_image_def cps_def sublist_code
        suffix_to_prefix)
  have a: "extract_image_url demo_env (cps ''/a/2'') = Inr (Some (cps ''/announcement/n.jpeg''))"
    using extract_image_url_first_candidate [OF g ok] v by simp
  have g2: "http_get ?env2 (plain_get (cps ''/a/2'')) = Inr ?resp2"
    by simp
  have ok2: "\<not> (400 \<le> resp_status ?resp2 \<and> resp_status ?resp2 < 600)"
    by (simp add: ok_response_def)
  have v2: "find is_announcement_image
       (map img_src (filter (\<lambda>e. el_tag e = cps ''img'') (resp_soup ?resp2))) = None"
    by (simp add: img_src_def is_announcement_image_def cps_def sublist_code suffix_to_prefix)
  have b: "extract_image_url ?env2 (cps ''/a/2'') = Inr None"
    using extract_image_url_first_candidate [OF g2 ok2] v2 by simp
  show ?thesis
    using a b by blast
qed

section \<open>Downloading twice\<close>

lemma node_of_upd:
  "loc \<noteq> [] \<Longrightarrow> node_of (fs(loc \<mapsto> n)) p = (if p = loc then Some n else node_of fs p)"
  by (simp add: node_of_def)

lemma walk_mono:
  "walk fs cur cs = Inr r \<Longrightarrow>
   (\<And>p. node_of fs p = Some Dir \<Longrightarrow> node_of fs' p = Some Dir) \<Longrightarrow>
   walk fs' cur cs = Inr r"
proof (induction cs arbitrary: cur)
  case Nil
  then show ?case by simp
next
  case (Cons c cs)
  from Cons.prems(1) have d: "node_of fs cur = Some Dir"
    by (auto split: option.splits node.splits)
  then have d': "node_of fs' cur = Some Dir"
    by (rule Cons.prems(2))
  from Cons.prems(1) d
  have "walk fs (if c = cps ''..'' then butlast cur else cur @ [c]) cs = Inr r"
    by simp
  then have "walk fs' (if c = cps ''..'' then butlast cur else cur @ [c]) cs = Inr r"
    using Cons.prems(2) by (rule Cons.IH)
  with d' show ?case by simp
qed

lemma mkdir_Inr:
  assumes "mkdir env fs p = Inr fs1"
  shows "\<exists>d. \<not> has_nul p \<and> walk fs [] (snd p) = Inr d \<and> node_of fs1 d = Some Dir
    \<and> (\<forall>q. node_of fs q = Some Dir \<longrightarrow> node_of fs1 q = Some Dir)"
proof -
  from assms have n: "\<not> has_nul p"
    by (auto simp: mkdir_def split: if_splits)
  from assms n obtain d where w: "walk fs [] (snd p) = Inr d"
    by (auto simp: mkdir_def split: sum.splits)
  show ?thesis
  proof (cases "node_of fs d")
    case None
    then have ne: "d \<noteq> []"
      by (auto simp: node_of_def)
    from assms n w None have f: "fs1 = fs(d \<mapsto> Dir)"
      by (auto simp: mkdir_def split: option.splits)
    have "node_of fs1 d = Some Dir"
      using ne by (simp add: f node_of_upd)
    moreover have "\<forall>q. node_of fs q = Some Dir \<longrightarrow> node_of fs1 q = Some Dir"
      using ne None by (auto simp: f node_of_upd)
    ultimately show ?thesis
      using n w by blast
  next
    case (Some nd)
    with assms n w have "nd = Dir" and f: "fs1 = fs"
      by (auto simp: mkdir_def split: node.splits)
    with Some show ?thesis
      using n w by auto
  qed
qed

lemma mkdir_again:
  assumes "mkdir env fs p = Inr fs1"
    and "\<And>q. node_of fs1 q = Some Dir \<Longrightarrow> node_of fs2 q = Some Dir"
  shows "mkdir env fs2 p = Inr fs2"
proof -
  from mkdir_Inr [OF assms(1)] obtain d where n: "\<not> has_nul p"
    and w: "walk fs [] (snd p) = Inr d" and d: "node_of fs1 d = Some Dir"
    and m: "\<And>q. node_of fs q = Some Dir \<Longrightarrow> node_of fs1 q = Some Dir"
    by blast
  have "walk fs2 [] (snd p) = Inr d"
    using w by (rule walk_mono) (simp add: m assms(2))
  moreover have "node_of fs2 d = Some Dir"
    using d by (rule assms(2))
  ultimately show ?thesis
    using n by (simp add: mkdir_def)
qed

lemma write_bytes_Inr:
  assumes "write_bytes env fs p content = Inr fs2"
  shows "\<exists>loc. \<not> has_nul p \<and> walk fs [] (snd p) = Inr loc \<and> loc \<noteq> []
    \<and> node_of fs loc \<noteq> Some Dir \<and> os_refuses env loc = None
    \<and> fs2 = fs(loc \<mapsto> File content)"
proof -
  from assms have n: "\<not> has_nul p"
    by (auto simp: write_bytes_def split: if_splits)
  from assms n obtain loc where w: "walk fs [] (snd p) = Inr loc"
    by (auto simp: write_bytes_def split: sum.splits)
  from assms n w have nd: "node_of fs loc \<noteq> Some Dir"
    by (auto simp: write_bytes_def)
  then have ne: "loc \<noteq> []"
    by (auto simp: node_of_def)
  from assms n w nd have "os_refuses env loc = None" and "fs2 = fs(loc \<mapsto> File content)"
    by (auto simp: write_bytes_def split: option.splits node.splits)
  with n w nd ne show ?thesis
    by blast
qed

lemma write_bytes_keeps_dirs:
  assumes "write_bytes env fs p content = Inr fs2"
    and "node_of fs q = Some Dir"
  shows "node_of fs2 q = Some Dir"
proof -
  from write_bytes_Inr [OF assms(1)] obtain loc where "loc \<noteq> []"
    "node_of fs loc \<noteq> Some Dir" "fs2 = fs(loc \<mapsto> File content)"
    by blast
  with assms(2) show ?thesis
    by (auto simp: node_of_upd)
qed

lemma write_bytes_again:
  assumes "write_bytes env fs p content = Inr fs2"
  shows "write_bytes env fs2 p content = Inr fs2 \<and> read_file fs2 p = Some content"
proof -
  from write_bytes_Inr [OF assms] obtain loc where n: "\<not> has_nul p"
    and w: "walk fs [] (snd p) = Inr loc" and ne: "loc \<noteq> []"
    and r: "os_refuses env loc = None" and f: "fs2 = fs(loc \<mapsto> File content)"
    by blast
  have w2: "walk fs2 [] (snd p) = Inr loc"
    using w by (rule walk_mono) (rule write_bytes_keeps_dirs [OF assms])
  have l: "node_of fs2 loc = Some (File content)"
    using ne by (simp add: f node_of_upd)
  have "fs2(loc \<mapsto> File content) = fs2"
    by (simp add: f)
  with n w2 l r show ?thesis
    by (simp add: write_bytes_def read_file_def)
qed

text \<open>
  Three symbols on the small site, from a file system that holds only the directory
  of the script: a plain symbol is written below the images directory, a symbol with
  a slash names a directory that is not there, so that the write fails and only the
  images directory has been made, and a symbol with a leading slash leaves the images
  directory aside.
\<close>

lemma download_image_paths:
  "download_image demo_env (cps ''/announcement/n.jpeg'') (cps ''A/B'') demo_files =
     (Inl FileNotFoundError, demo_files([cps ''srv'', cps ''images''] \<mapsto> Dir))"
  "download_image demo_env (cps ''/announcement/n.jpeg'') (cps ''/srv/abs'') demo_files =
     (Inr (cps ''/'', [cps ''srv'', cps ''abs.jpeg'']),
      demo_files([cps ''srv'', cps ''images''] \<mapsto> Dir,
                 [cps ''srv'', cps ''abs.jpeg''] \<mapsto> File [255, 216, 255]))"
  "download_image demo_env (cps ''/announcement/gone.png'') (cps ''A'') demo_files =
     (Inl (HTTPError 503), demo_files([cps ''srv'', cps ''images''] \<mapsto> Dir))"
  by (simp_all add: download_image_def mkdir_def write_bytes_def images_dir_def joinpath_def
      path_root_def path_parts_def path_suffix_def path_name_def rfind_def has_nul_def
      node_of_def plain_get_def raise_for_status_def demo_files_def demo_env_def demo_get_def
      ok_response_def cps_def Let_def)

text \<open>
  Claim C7.  Let the image request be answered without error, let the images
  directory be there or be made, and let the file system accept the write at the
  path that \<open>IMAGES_DIR\<close> joined with the symbol and the extension of the URL (\<open>.jpg\<close>
  when the URL has none) names.  Then \<open>download_image\<close> returns that path, which
  depends on nothing but the directory, the symbol and the extension; the file at
  the path holds the bytes of the response whatever it held before; and repeating the
  call on the resulting file system returns the same path and leaves the file system
  exactly as it is.  The site answers a request by its content (\<open>http_get\<close> is a
  function of the request).
\<close>

theorem download_image_idempotent:
  assumes "http_get env (plain_get url) = Inr resp"
    and "\<not> (400 \<le> resp_status resp \<and> resp_status resp < 600)"
    and "mkdir env fs (images_dir env) = Inr fs1"
    and "write_bytes env fs1
           (joinpath (images_dir env)
              (symbol @ (if path_suffix url \<noteq> [] then path_suffix url else cps ''.jpg'')))
           (resp_content resp) = Inr fs2"
  shows "download_image env url symbol fs =
           (Inr (joinpath (images_dir env)
              (symbol @ (if path_suffix url \<noteq> [] then path_suffix url else cps ''.jpg''))), fs2)
    \<and> read_file fs2
         (joinpath (images_dir env)
            (symbol @ (if path_suffix url \<noteq> [] then path_suffix url else cps ''.jpg''))) =
       Some (resp_content resp)
    \<and> download_image env url symbol fs2 =
           (Inr (joinpath (images_dir env)
              (symbol @ (if path_suffix url \<noteq> [] then path_suffix url else cps ''.jpg''))), fs2)"
proof -
  define filepath where "filepath = joinpath (images_dir env)
    (symbol @ (if path_suffix url \<noteq> [] then path_suffix url else cps ''.jpg''))"
  have wr: "write_bytes env fs1 filepath (resp_content resp) = Inr fs2"
    using assms(4) by (simp add: filepath_def)
  have ok: "raise_for_status resp = Inr ()"
    using assms(2) by (simp add: raise_for_status_def)
  have d: "mkdir env s (images_dir env) = Inr s1 \<Longrightarrow>
      write_bytes env s1 filepath (resp_content resp) = Inr s2 \<Longrightarrow>
      download_image env url symbol s = (Inr filepath, s2)" for s s1 s2
    using assms(1) ok by (simp add: download_image_def filepath_def Let_def)
  have first: "download_image env url symbol fs = (Inr filepath, fs2)"
    using assms(3) wr by (rule d)
  have again: "write_bytes env fs2 filepath (resp_content resp) = Inr fs2"
    and content: "read_file fs2 filepath = Some (resp_content resp)"
    using write_bytes_again [OF wr] by simp_all
  have "mkdir env fs2 (images_dir env) = Inr fs2"
    using assms(3) by (rule mkdir_again) (rule write_bytes_keeps_dirs [OF wr])
  then have second: "download_image env url symbol fs2 = (Inr filepath, fs2)"
    using again by (rule d)
  show ?thesis
    using first content second unfolding filepath_def by blast
qed

theorem download_image_idempotent_witness:
  "download_image demo_env (cps ''/announcement/n.jpeg'') (cps ''NIBLSF'') demo_files =
     (Inr (cps ''/'', [cps ''srv'', cps ''images'', cps ''NIBLSF.jpeg'']),
      demo_files([cps ''srv'', cps ''images''] \<mapsto> Dir,
                 [cps ''srv'', cps ''images'', cps ''NIBLSF.jpeg''] \<mapsto> File [255, 216, 255]))
   \<and> read_file
       (demo_files([cps ''srv'', cps ''images''] \<mapsto> Dir,
                   [cps ''srv'', cps ''images'', cps ''NIBLSF.jpeg''] \<mapsto> File [255, 216, 255]))
       (cps ''/'', [cps ''srv'', cps ''images'', cps ''NIBLSF.jpeg'']) = Some [255, 216, 255]
   \<and> download_image demo_env (cps ''/announcement/n.jpeg'') (cps ''NIBLSF'')
       (demo_files([cps ''srv'', cps ''images''] \<mapsto> Dir,
                   [cps ''srv'', cps ''images'', cps ''NIBLSF.jpeg''] \<mapsto> File [255, 216, 255])) =
     (Inr (cps ''/'', [cps ''srv'', cps ''images'', cps ''NIBLSF.jpeg'']),
      demo_files([cps ''srv'', cps ''images''] \<mapsto> Dir,
                 [cps ''srv'', cps ''images'', cps ''NIBLSF.jpeg''] \<mapsto> File [255, 216, 255]))"
proof -
  let ?url = "cps ''/announcement/n.jpeg''"
  let ?resp = "ok_response\<lparr>resp_content := [255, 216, 255]\<rparr>"
  let ?fs1 = "demo_files([cps ''srv'', cps ''images''] \<mapsto> Dir)"
  let ?fs2 = "demo_files([cps ''srv'', cps ''images''] \<mapsto> Dir,
                 [cps ''srv'', cps ''images'', cps ''NIBLSF.jpeg''] \<mapsto> File [255, 216, 255])"
  have s: "path_suffix ?url = cps ''.jpeg''"
    by (simp add: path_suffix_def path_name_def path_parts_def rfind_def cps_def)
  have p: "joinpath (images_dir demo_env)
      (cps ''NIBLSF'' @ (if path_suffix ?url \<noteq> [] then path_suffix ?url else cps ''.jpg'')) =
      (cps ''/'', [cps ''srv'', cps ''images'', cps ''NIBLSF.jpeg''])"
    unfolding s
    by (simp add: joinpath_def images_dir_def path_root_def path_parts_def demo_env_def cps_def)
  have g: "http_get demo_env (plain_get ?url) = Inr ?resp"
    by (simp add: plain_get_def demo_env_def demo_get_def cps_def)
  have ok: "\<not> (400 \<le> resp_status ?resp \<and> resp_status ?resp < 600)"
    by (simp add: ok_response_def)
  have mk: "mkdir demo_env demo_files (images_dir demo_env) = Inr ?fs1"
    by (simp add: mkdir_def images_dir_def has_nul_def node_of_def demo_files_def demo_env_def
        cps_def)
  have wr: "write_bytes demo_env ?fs1
      (joinpath (images_dir demo_env)
        (cps ''NIBLSF'' @ (if path_suffix ?url \<noteq> [] then path_suffix ?url else cps ''.jpg'')))
      (resp_content ?resp) = Inr ?fs2"
    unfolding p
    by (simp add: write_bytes_def has_nul_def node_of_def demo_files_def demo_env_def cps_def)
  show ?thesis
    using download_image_idempotent [OF g ok mk wr] unfolding p by simp
qed

section \<open>A missing and an unconfigured OCR engine\<close>

lemma handle_exception_exit:
  "exit_code (handle_exception err dbg e) = 1 \<and> stdout (handle_exception err dbg e) = []"
  by (cases e) (simp_all add: handle_exception_def)

text \<open>
  Claim C8 says that a missing or unconfigured OCR runtime gives a distinct error that
  is never conflated with a data error.  Take a Tesseract that is installed without
  the data of the requested language: its run ends with status 1, so \<open>extract_text\<close>
  fails with a \<open>TesseractError\<close>, and the single-image command reports it through its
  general handler, with an error document of the same kind as the one it prints when
  the image source does not exist.
\<close>

theorem unconfigured_engine_counterexample:
  "extract_text (demo_env\<lparr>tesseract_installed := True\<rparr>) (Image 4 6 []) =
     Inl (TesseractError 1 (cps ''Failed loading language nep''))
   \<and> extract_nav_main (demo_env\<lparr>tesseract_installed := True\<rparr>)
       \<lparr>arg_image = cps ''nav.png'', arg_debug = False\<rparr> =
     \<lparr>stdout = [],
      stderr = [ShapeLine 2 3, ErrorDoc (TesseractError 1 (cps ''Failed loading language nep''))],
      debug_processed = None, exit_code = 1\<rparr>
   \<and> extract_nav_main (demo_env\<lparr>tesseract_installed := True\<rparr>)
       \<lparr>arg_image = cps ''missing.png'', arg_debug = False\<rparr> =
     \<lparr>stdout = [], stderr = [ErrorDoc FileNotFoundError], debug_processed = None,
      exit_code = 1\<rparr>"
  by (simp add: extract_nav_main_def get_image_def preprocess_image_def extract_text_def
      image_to_string_def handle_exception_def demo_env_def cps_def)

text \<open>
  Claim C8, as the code has it.  A missing engine gives an error of its own: without
  the EasyOCR module \<open>run_easyocr\<close> fails with \<open>ModuleNotFoundError\<close>, and without the
  Tesseract program \<open>extract_text\<close> fails with \<open>TesseractNotFoundError\<close>; the
  single-image command then ends with exit code 1 and no result document whatever
  its arguments, and when the image was loaded and preprocessed its standard error
  holds the shape line and the document of the \<open>TesseractNotFoundError\<close> handler.  An
  installed Tesseract whose run fails gives a \<open>TesseractError\<close>, and the command
  reports that error, like every exception other than \<open>TesseractNotFoundError\<close>,
  with the general error document and exit code 1.
\<close>

theorem missing_engine_is_distinct_and_fatal:
  "(\<not> easyocr_installed env \<longrightarrow> run_easyocr env fs p = Inl ModuleNotFoundError)
   \<and> (\<not> tesseract_installed env \<longrightarrow>
        extract_text env img = Inl TesseractNotFoundError
        \<and> exit_code (extract_nav_main env a) = 1 \<and> stdout (extract_nav_main env a) = [])
   \<and> (\<not> tesseract_installed env
        \<and> get_image env (arg_image a) = Inr (Some img)
        \<and> cv2_threshold_pipeline env img = Inr processed \<longrightarrow>
        extract_nav_main env a =
          \<lparr>stdout = [], stderr = [ShapeLine (height img) (width img), TesseractNotFoundDoc],
           debug_processed = (if arg_debug a then Some processed else None), exit_code = 1\<rparr>)
   \<and> (tesseract_installed env
        \<and> tesseract_run env (cps ''--oem 3 --psm 11 -l nep'') img = Inl (status, message) \<longrightarrow>
        extract_text env img = Inl (TesseractError status message))
   \<and> (get_image env (arg_image a) = Inr (Some img)
        \<and> cv2_threshold_pipeline env img = Inr processed
        \<and> extract_text env processed = Inl e \<and> e \<noteq> TesseractNotFoundError \<longrightarrow>
        extract_nav_main env a =
          \<lparr>stdout = [], stderr = [ShapeLine (height img) (width img), ErrorDoc e],
           debug_processed = (if arg_debug a then Some processed else None), exit_code = 1\<rparr>)"
proof -
  have 1: "\<not> easyocr_installed env \<longrightarrow> run_easyocr env fs p = Inl ModuleNotFoundError"
    by (simp add: run_easyocr_def)
  have m: "\<not> tesseract_installed env \<Longrightarrow> extract_text env i = Inl TesseractNotFoundError" for i
    by (simp add: extract_text_def image_to_string_def)
  have 2: "\<not> tesseract_installed env \<longrightarrow>
        extract_text env img = Inl TesseractNotFoundError
        \<and> exit_code (extract_nav_main env a) = 1 \<and> stdout (extract_nav_main env a) = []"
  proof
    assume t: "\<not> tesseract_installed env"
    have "exit_code (extract_nav_main env a) = 1 \<and> stdout (extract_nav_main env a) = []"
    proof (cases "get_image env (arg_image a)")
      case (Inl x)
      then show ?thesis
        by (simp add: extract_nav_main_def handle_exception_exit)
    next
      case (Inr im)
      obtain err r where pr: "preprocess_image env im = (err, r)"
        by (cases "preprocess_image env im") auto
      show ?thesis
      proof (cases r)
        case (Inl x)
        with Inr pr show ?thesis
          by (simp add: extract_nav_main_def handle_exception_exit)
      next
        case (Inr pimg)
        with \<open>get_image env (arg_image a) = Inr im\<close> pr m [OF t] show ?thesis
          by (simp add: extract_nav_main_def handle_exception_exit Let_def)
      qed
    qed
    with m [OF t] show "extract_text env img = Inl TesseractNotFoundError
        \<and> exit_code (extract_nav_main env a) = 1 \<and> stdout (extract_nav_main env a) = []"
      by simp
  qed
  have 3: "\<not> tesseract_installed env
        \<and> get_image env (arg_image a) = Inr (Some img)
        \<and> cv2_threshold_pipeline env img = Inr processed \<longrightarrow>
        extract_nav_main env a =
          \<lparr>stdout = [], stderr = [ShapeLine (height img) (width img), TesseractNotFoundDoc],
           debug_processed = (if arg_debug a then Some processed else None), exit_code = 1\<rparr>"
    using m by (simp add: extract_nav_main_def preprocess_image_def handle_exception_def)
  have 4: "tesseract_installed env
        \<and> tesseract_run env (cps ''--oem 3 --psm 11 -l nep'') img = Inl (status, message) \<longrightarrow>
        extract_text env img = Inl (TesseractError status message)"
    by (simp add: extract_text_def image_to_string_def)
  have 5: "get_image env (arg_image a) = Inr (Some img)
        \<and> cv2_threshold_pipeline env img = Inr processed
        \<and> extract_text env processed = Inl e \<and> e \<noteq> TesseractNotFoundError \<longrightarrow>
        extract_nav_main env a =
          \<lparr>stdout = [], stderr = [ShapeLine (height img) (width img), ErrorDoc e],
           debug_processed = (if arg_debug a then Some processed else None), exit_code = 1\<rparr>"
    by (cases e) (simp_all add: extract_nav_main_def preprocess_image_def handle_exception_def)
  show ?thesis
    using 1 2 3 4 5 by blast
qed

theorem missing_engine_is_distinct_and_fatal_witness:
  "run_easyocr demo_env demo_files (cps ''/'', [cps ''srv'', cps ''images'', cps ''NIBLSF.jpeg'']) =
     Inl ModuleNotFoundError
   \<and> extract_text demo_env (Image 4 6 []) = Inl TesseractNotFoundError
   \<and> exit_code (extract_nav_main demo_env \<lparr>arg_image = cps ''missing.png'', arg_debug = False\<rparr>)
       = 1
   \<and> extract_nav_main demo_env \<lparr>arg_image = cps ''nav.png'', arg_debug = True\<rparr> =
       \<lparr>stdout = [], stderr = [ShapeLine 2 3, TesseractNotFoundDoc],
        debug_processed = Some (Image 4 6 []), exit_code = 1\<rparr>
   \<and> extract_text (demo_env\<lparr>tesseract_installed := True\<rparr>) (Image 4 6 []) =
       Inl (TesseractError 1 (cps ''Failed loading language nep''))
   \<and> extract_nav_main (demo_env\<lparr>tesseract_installed := True\<rparr>)
       \<lparr>arg_image = cps ''nav.png'', arg_debug = True\<rparr> =
       \<lparr>stdout = [],
        stderr = [ShapeLine 2 3,
                  ErrorDoc (TesseractError 1 (cps ''Failed loading language nep''))],
        debug_processed = Some (Image 4 6 []), exit_code = 1\<rparr>"
proof -
  let ?a = "\<lparr>arg_image = cps ''nav.png'', arg_debug = True\<rparr>"
  let ?b = "\<lparr>arg_image = cps ''missing.png'', arg_debug = False\<rparr>"
  let ?env = "demo_env\<lparr>tesseract_installed := True\<rparr>"
  let ?msg = "cps ''Failed loading language nep''"
  have i: "\<not> easyocr_installed demo_env" and t: "\<not> tesseract_installed demo_env"
    by (simp_all add: demo_env_def)
  have g: "get_image demo_env (arg_image ?a) = Inr (Some (Image 2 3 []))
        \<and> cv2_threshold_pipeline demo_env (Image 2 3 []) = Inr (Image 4 6 [])"
    by (simp add: get_image_def demo_env_def cps_def)
  have g': "get_image ?env (arg_image ?a) = Inr (Some (Image 2 3 []))
        \<and> cv2_threshold_pipeline ?env (Image 2 3 []) = Inr (Image 4 6 [])"
    by (simp add: get_image_def demo_env_def cps_def)
  have u: "tesseract_installed ?env
        \<and> tesseract_run ?env (cps ''--oem 3 --psm 11 -l nep'') (Image 4 6 []) = Inl (1, ?msg)"
    by (simp add: demo_env_def)
  have 1: "run_easyocr demo_env demo_files
      (cps ''/'', [cps ''srv'', cps ''images'', cps ''NIBLSF.jpeg'']) = Inl ModuleNotFoundError"
    using missing_engine_is_distinct_and_fatal [of demo_env] i by blast
  have 2: "extract_text demo_env (Image 4 6 []) = Inl TesseractNotFoundError"
    using missing_engine_is_distinct_and_fatal [of demo_env] t by blast
  have 3: "exit_code (extract_nav_main demo_env ?b) = 1"
    using missing_engine_is_distinct_and_fatal [of demo_env _ _ _ ?b] t by blast
  have 4: "extract_nav_main demo_env ?a =
       \<lparr>stdout = [], stderr = [ShapeLine (height (Image 2 3 [])) (width (Image 2 3 [])),
          TesseractNotFoundDoc],
        debug_processed = (if arg_debug ?a then Some (Image 4 6 []) else None), exit_code = 1\<rparr>"
    using missing_engine_is_distinct_and_fatal
      [of demo_env _ _ "Image 2 3 []" ?a "Image 4 6 []"] t g by blast
  have 5: "extract_text ?env (Image 4 6 []) = Inl (TesseractError 1 ?msg)"
    using missing_engine_is_distinct_and_fatal [of ?env _ _ "Image 4 6 []" _ _ 1 ?msg] u
    by blast
  have n: "TesseractError 1 ?msg \<noteq> TesseractNotFoundError"
    by simp
  have 6: "extract_nav_main ?env ?a =
       \<lparr>stdout = [], stderr = [ShapeLine (height (Image 2 3 [])) (width (Image 2 3 [])),
          ErrorDoc (TesseractError 1 ?msg)],
        debug_processed = (if arg_debug ?a then Some (Image 4 6 []) else None), exit_code = 1\<rparr>"
    using missing_engine_is_distinct_and_fatal
      [of ?env _ _ "Image 2 3 []" ?a "Image 4 6 []" _ _ "TesseractError 1 ?msg"] g' 5 n
    by blast
  show ?thesis
    using 1 2 3 4 5 6 by simp
qed

section \<open>One fund's failure and the other funds\<close>













end
